theory Spec2Isabelle
  imports Complex_Main
begin

section \<open>JavaScript numbers\<close>

text \<open>
  A JavaScript Number is modelled as an extended real: a finite value, the two
  infinities, or NaN. Every arithmetic operation computes the exact real result and
  then overflows to an infinity exactly where IEEE binary64 round-to-nearest does
  (at magnitude \<open>2^1024 - 2^970\<close>). The rounding of the significand, underflow and
  the sign of zero are not modelled: \<open>Num 0\<close> stands for both zeros.
\<close>

datatype jsnum = Num real | PosInf | NegInf | NaN

definition overflow_at :: real where
  "overflow_at = 2 ^ 1024 - 2 ^ 970"

definition mk :: "real \<Rightarrow> jsnum" where
  "mk r = (if overflow_at \<le> r then PosInf else if r \<le> - overflow_at then NegInf else Num r)"

fun js_neg :: "jsnum \<Rightarrow> jsnum" where
  "js_neg (Num a) = Num (- a)"
| "js_neg PosInf = NegInf"
| "js_neg NegInf = PosInf"
| "js_neg NaN = NaN"

fun js_add :: "jsnum \<Rightarrow> jsnum \<Rightarrow> jsnum" where
  "js_add NaN _ = NaN"
| "js_add _ NaN = NaN"
| "js_add (Num a) (Num b) = mk (a + b)"
| "js_add PosInf NegInf = NaN"
| "js_add NegInf PosInf = NaN"
| "js_add PosInf _ = PosInf"
| "js_add NegInf _ = NegInf"
| "js_add _ PosInf = PosInf"
| "js_add _ NegInf = NegInf"

definition js_sub :: "jsnum \<Rightarrow> jsnum \<Rightarrow> jsnum" where
  "js_sub a b = js_add a (js_neg b)"

text \<open>The sign of a product or quotient with an infinity; a zero counts as \<open>+0\<close>.\<close>

definition signed_inf :: "bool \<Rightarrow> jsnum" where
  "signed_inf positive = (if positive then PosInf else NegInf)"

fun js_mul :: "jsnum \<Rightarrow> jsnum \<Rightarrow> jsnum" where
  "js_mul NaN _ = NaN"
| "js_mul _ NaN = NaN"
| "js_mul (Num a) (Num b) = mk (a * b)"
| "js_mul PosInf PosInf = PosInf"
| "js_mul PosInf NegInf = NegInf"
| "js_mul NegInf PosInf = NegInf"
| "js_mul NegInf NegInf = PosInf"
| "js_mul PosInf (Num b) = (if b = 0 then NaN else signed_inf (0 < b))"
| "js_mul NegInf (Num b) = (if b = 0 then NaN else signed_inf (b < 0))"
| "js_mul (Num a) PosInf = (if a = 0 then NaN else signed_inf (0 < a))"
| "js_mul (Num a) NegInf = (if a = 0 then NaN else signed_inf (a < 0))"

fun js_div :: "jsnum \<Rightarrow> jsnum \<Rightarrow> jsnum" where
  "js_div NaN _ = NaN"
| "js_div _ NaN = NaN"
| "js_div (Num a) (Num b) =
     (if b = 0 then (if a = 0 then NaN else signed_inf (0 < a)) else mk (a / b))"
| "js_div (Num a) _ = Num 0"
| "js_div PosInf (Num b) = signed_inf (0 \<le> b)"
| "js_div NegInf (Num b) = signed_inf (b < 0)"
| "js_div _ _ = NaN"

text \<open>The relational operators \<open><\<close> and \<open><=\<close>: false as soon as an operand is NaN.\<close>

fun js_less :: "jsnum \<Rightarrow> jsnum \<Rightarrow> bool" where
  "js_less NaN _ = False"
| "js_less _ NaN = False"
| "js_less (Num a) (Num b) = (a < b)"
| "js_less NegInf NegInf = False"
| "js_less NegInf _ = True"
| "js_less _ NegInf = False"
| "js_less PosInf _ = False"
| "js_less _ PosInf = True"

fun js_le :: "jsnum \<Rightarrow> jsnum \<Rightarrow> bool" where
  "js_le NaN _ = False"
| "js_le _ NaN = False"
| "js_le a b = (a = b \<or> js_less a b)"

fun isFinite :: "jsnum \<Rightarrow> bool" where
  "isFinite (Num _) = True"
| "isFinite _ = False"

text \<open>\<open>Math.max\<close> and \<open>Math.min\<close> of two arguments: NaN as soon as one is NaN.\<close>

fun Math_max :: "jsnum \<Rightarrow> jsnum \<Rightarrow> jsnum" where
  "Math_max NaN _ = NaN"
| "Math_max _ NaN = NaN"
| "Math_max a b = (if js_less a b then b else a)"

fun Math_min :: "jsnum \<Rightarrow> jsnum \<Rightarrow> jsnum" where
  "Math_min NaN _ = NaN"
| "Math_min _ NaN = NaN"
| "Math_min a b = (if js_less b a then b else a)"

fun Math_abs :: "jsnum \<Rightarrow> jsnum" where
  "Math_abs (Num a) = Num \<bar>a\<bar>"
| "Math_abs NaN = NaN"
| "Math_abs _ = PosInf"

fun Math_floor :: "jsnum \<Rightarrow> jsnum" where
  "Math_floor (Num a) = Num (of_int \<lfloor>a\<rfloor>)"
| "Math_floor x = x"

text \<open>
  \<open>Math.hypot\<close> of two arguments: an infinity wins over NaN; otherwise the square
  root of the sum of squares, which overflows only if the result does.
\<close>

fun Math_hypot :: "jsnum \<Rightarrow> jsnum \<Rightarrow> jsnum" where
  "Math_hypot (Num a) (Num b) = mk (sqrt (a * a + b * b))"
| "Math_hypot a b =
     (if a = PosInf \<or> a = NegInf \<or> b = PosInf \<or> b = NegInf then PosInf else NaN)"

section \<open>Helpers of the page\<close>

text \<open>\<open>const clamp = (v, min, max) => Math.max(min, Math.min(max, v))\<close>\<close>

definition clamp :: "jsnum \<Rightarrow> jsnum \<Rightarrow> jsnum \<Rightarrow> jsnum" where
  "clamp v lo hi = Math_max lo (Math_min hi v)"


text \<open>
  \<open>Number(v)\<close> for the two kinds of value the inputs deliver: a slider passes a
  number, a text field passes a string. A string is converted by the StringToNumber
  grammar: surrounding white space is dropped; the empty string is \<open>0\<close>; a binary,
  octal or hexadecimal integer literal (\<open>0b\<close>, \<open>0o\<close>, \<open>0x\<close>) has no sign; a
  decimal literal has an optional sign, \<open>Infinity\<close> or digits with an optional
  fraction and exponent; everything else is NaN. The value of a literal is taken
  exactly, up to overflow.
\<close>

datatype jsval = JStr string | JNum jsnum

text \<open>
  White space, as \<open>Number\<close> strips it from both ends of a string: the ECMAScript
  WhiteSpace and LineTerminator characters. Strings are UTF-8 byte strings, so a
  white space character is one byte (TAB, LF, VT, FF, CR, SP), two bytes (U+00A0) or
  three bytes (U+1680, U+2000 to U+200A, U+2028, U+2029, U+202F, U+205F, U+3000,
  U+FEFF).
\<close>

definition is_ws :: "char \<Rightarrow> bool" where
  "is_ws c = (c \<in> set [CHR 0x09, CHR 0x0A, CHR 0x0B, CHR 0x0C, CHR 0x0D, CHR 0x20])"

definition is_ws2 :: "char \<Rightarrow> char \<Rightarrow> bool" where
  "is_ws2 a b = (a = CHR 0xC2 \<and> b = CHR 0xA0)"

definition is_ws3 :: "char \<Rightarrow> char \<Rightarrow> char \<Rightarrow> bool" where
  "is_ws3 a b c =
     ((a = CHR 0xE1 \<and> b = CHR 0x9A \<and> c = CHR 0x80)
      \<or> (a = CHR 0xE2 \<and> b = CHR 0x80
          \<and> ((128 \<le> (of_char c :: nat) \<and> (of_char c :: nat) \<le> 138)
              \<or> c = CHR 0xA8 \<or> c = CHR 0xA9 \<or> c = CHR 0xAF))
      \<or> (a = CHR 0xE2 \<and> b = CHR 0x81 \<and> c = CHR 0x9F)
      \<or> (a = CHR 0xE3 \<and> b = CHR 0x80 \<and> c = CHR 0x80)
      \<or> (a = CHR 0xEF \<and> b = CHR 0xBB \<and> c = CHR 0xBF))"

text \<open>
  Dropping the white space at the front of a string; with \<open>backwards\<close> set, the
  string is read from its end, so the bytes of a character arrive in reverse order.
\<close>

fun strip_ws :: "bool \<Rightarrow> string \<Rightarrow> string" where
  "strip_ws backwards [] = []"
| "strip_ws backwards (c # cs) =
     (if is_ws c then strip_ws backwards cs
      else
        (case cs of
           [] \<Rightarrow> [c]
         | d # ds \<Rightarrow>
             if (if backwards then is_ws2 d c else is_ws2 c d) then strip_ws backwards ds
             else
               (case ds of
                  [] \<Rightarrow> c # cs
                | e # es \<Rightarrow>
                    if (if backwards then is_ws3 e d c else is_ws3 c d e)
                    then strip_ws backwards es
                    else c # cs)))"

definition trim :: "string \<Rightarrow> string" where
  "trim s = rev (strip_ws True (rev (strip_ws False s)))"

definition digit_val :: "char \<Rightarrow> nat option" where
  "digit_val c =
     (let n = (of_char c :: nat) in
      if 48 \<le> n \<and> n \<le> 57 then Some (n - 48)
      else if 97 \<le> n \<and> n \<le> 102 then Some (n - 87)
      else if 65 \<le> n \<and> n \<le> 70 then Some (n - 55)
      else None)"

definition is_digit :: "char \<Rightarrow> bool" where
  "is_digit c = (case digit_val c of Some d \<Rightarrow> d < 10 | None \<Rightarrow> False)"

fun digits_acc :: "nat \<Rightarrow> nat \<Rightarrow> string \<Rightarrow> nat option" where
  "digits_acc base acc [] = Some acc"
| "digits_acc base acc (c # cs) =
     (case digit_val c of
        Some d \<Rightarrow> if d < base then digits_acc base (acc * base + d) cs else None
      | None \<Rightarrow> None)"

text \<open>The value of a non-empty run of digits of the given base.\<close>

definition digits_value :: "nat \<Rightarrow> string \<Rightarrow> nat option" where
  "digits_value base s = (if s = [] then None else digits_acc base 0 s)"

text \<open>An optional exponent part: nothing, or \<open>e\<close>/\<open>E\<close>, an optional sign and digits.\<close>

definition exponent_part :: "string \<Rightarrow> int option" where
  "exponent_part s =
     (case s of
        [] \<Rightarrow> Some 0
      | c # r \<Rightarrow>
          if c = CHR ''e'' \<or> c = CHR ''E'' then
            (case r of
               [] \<Rightarrow> None
             | d # ds \<Rightarrow>
                 if d = CHR ''+'' then map_option int (digits_value 10 ds)
                 else if d = CHR ''-'' then map_option (\<lambda>n. - int n) (digits_value 10 ds)
                 else map_option int (digits_value 10 r))
          else None)"

definition digits_or_zero :: "string \<Rightarrow> nat" where
  "digits_or_zero s = (case digits_value 10 s of None \<Rightarrow> 0 | Some n \<Rightarrow> n)"

definition pow10 :: "int \<Rightarrow> real" where
  "pow10 e = (if 0 \<le> e then 10 ^ nat e else 1 / 10 ^ nat (- e))"

text \<open>
  The mathematical value of an unsigned decimal literal other than \<open>Infinity\<close>:
  digits, then optionally a dot and digits, with a digit on at least one side of
  the dot, then an optional exponent.
\<close>

definition unsigned_decimal :: "string \<Rightarrow> real option" where
  "unsigned_decimal s =
     (let ip = takeWhile is_digit s;
          r1 = dropWhile is_digit s;
          dot = (r1 \<noteq> [] \<and> hd r1 = CHR ''.'');
          fp = (if dot then takeWhile is_digit (tl r1) else []);
          r2 = (if dot then dropWhile is_digit (tl r1) else r1)
      in if ip = [] \<and> fp = [] then None
         else
           (case exponent_part r2 of
              None \<Rightarrow> None
            | Some e \<Rightarrow>
                Some ((real (digits_or_zero ip) + real (digits_or_zero fp) / 10 ^ length fp)
                      * pow10 e)))"

definition radix_of :: "char \<Rightarrow> nat option" where
  "radix_of c =
     (if c = CHR ''x'' \<or> c = CHR ''X'' then Some 16
      else if c = CHR ''o'' \<or> c = CHR ''O'' then Some 8
      else if c = CHR ''b'' \<or> c = CHR ''B'' then Some 2
      else None)"

definition signed_decimal :: "string \<Rightarrow> jsnum" where
  "signed_decimal s =
     (let neg = (s \<noteq> [] \<and> hd s = CHR ''-'');
          body = (if s \<noteq> [] \<and> (hd s = CHR ''-'' \<or> hd s = CHR ''+'') then tl s else s)
      in if body = ''Infinity'' then signed_inf (\<not> neg)
         else
           (case unsigned_decimal body of
              None \<Rightarrow> NaN
            | Some r \<Rightarrow> mk (if neg then - r else r)))"

definition StringToNumber :: "string \<Rightarrow> jsnum" where
  "StringToNumber str =
     (let s = trim str
      in case s of
           [] \<Rightarrow> Num 0
         | [c] \<Rightarrow> signed_decimal s
         | c # d # ds \<Rightarrow>
             (case (if c = CHR ''0'' then radix_of d else None) of
                Some base \<Rightarrow>
                  (case digits_value base ds of None \<Rightarrow> NaN | Some n \<Rightarrow> mk (real n))
              | None \<Rightarrow> signed_decimal s))"

fun Number :: "jsval \<Rightarrow> jsnum" where
  "Number (JStr s) = StringToNumber s"
| "Number (JNum n) = n"

text \<open>
  \<^verbatim>\<open>function ensureNumber(v, fallback) {
    const n = Number(v);
    return Number.isFinite(n) ? n : fallback; }\<close>
\<close>

definition ensureNumber :: "jsval \<Rightarrow> jsnum \<Rightarrow> jsnum" where
  "ensureNumber v fallback = (let n = Number v in if isFinite n then n else fallback)"

section \<open>Rendering numbers\<close>

text \<open>
  A rendering either returns a string or throws. The digits that \<open>Number::toString\<close>
  prints depend on the binary64 value once the magnitude reaches \<open>2^53\<close> (or the
  number is not an integer), and \<open>toFixed\<close> switches to that algorithm from
  \<open>10^21\<close> on; this model of numbers does not determine those digits, and such a
  rendering is \<open>NotModelled\<close>. It is not an exception of the program.
\<close>

datatype js_error = RangeError

datatype 'a result = Returns 'a | Raised js_error | NotModelled

fun bind_result :: "'a result \<Rightarrow> ('a \<Rightarrow> 'b result) \<Rightarrow> 'b result" where
  "bind_result (Returns x) f = f x"
| "bind_result (Raised e) f = Raised e"
| "bind_result NotModelled f = NotModelled"

text \<open>The character of a decimal digit \<open>d < 10\<close>.\<close>

definition digit_char :: "nat \<Rightarrow> char" where
  "digit_char d = ''0123456789'' ! d"

fun digits_of :: "nat \<Rightarrow> string" where
  "digits_of n = (if n < 10 then [digit_char n] else digits_of (n div 10) @ [digit_char (n mod 10)])"

text \<open>\<open>ToIntegerOrInfinity\<close>: NaN is \<open>0\<close>, a finite value is truncated towards zero.\<close>

fun ToIntegerOrInfinity :: "jsnum \<Rightarrow> jsnum" where
  "ToIntegerOrInfinity NaN = Num 0"
| "ToIntegerOrInfinity (Num r) = Num (if r < 0 then - of_int \<lfloor>- r\<rfloor> else of_int \<lfloor>r\<rfloor>)"
| "ToIntegerOrInfinity x = x"

text \<open>
  \<open>Number::toString\<close>, as a template literal applies it: the names of the values
  that are not finite, and the decimal digits of an integer below \<open>2^53\<close>.
\<close>

fun Number_toString :: "jsnum \<Rightarrow> string result" where
  "Number_toString NaN = Returns ''NaN''"
| "Number_toString PosInf = Returns ''Infinity''"
| "Number_toString NegInf = Returns ''-Infinity''"
| "Number_toString (Num r) =
     (if r = of_int \<lfloor>r\<rfloor> \<and> \<bar>r\<bar> < 2 ^ 53
      then Returns ((if r < 0 then ''-'' else []) @ digits_of (nat \<lfloor>\<bar>r\<bar>\<rfloor>))
      else NotModelled)"

text \<open>
  \<open>Number.prototype.toFixed\<close>: a RangeError unless the digit count is within
  \<open>0..100\<close>; the name of a value that is not finite; otherwise the sign, and the
  integer \<open>n\<close> nearest to \<open>x * 10^f\<close> (the larger one of two) written with a dot
  before its last \<open>f\<close> digits, padded with zeros to \<open>f + 1\<close> digits.
\<close>

definition fixed_digits :: "nat \<Rightarrow> nat \<Rightarrow> string" where
  "fixed_digits f n =
     (let m = digits_of n
      in if f \<noteq> 0 then
           (let m = (if length m \<le> f then replicate (f + 1 - length m) (CHR ''0'') @ m else m);
                k = length m
            in take (k - f) m @ ''.'' @ drop (k - f) m)
         else m)"

definition toFixed :: "jsnum \<Rightarrow> jsnum \<Rightarrow> string result" where
  "toFixed x fractionDigits =
     (case ToIntegerOrInfinity fractionDigits of
        Num f \<Rightarrow>
          if f < 0 \<or> 100 < f then Raised RangeError
          else
            (case x of
               Num r \<Rightarrow>
                 if 10 ^ 21 \<le> \<bar>r\<bar> then NotModelled
                 else Returns ((if r < 0 then ''-'' else [])
                               @ fixed_digits (nat \<lfloor>f\<rfloor>) (nat \<lfloor>\<bar>r\<bar> * 10 ^ nat \<lfloor>f\<rfloor> + 1 / 2\<rfloor>))
             | _ \<Rightarrow> Number_toString x)
      | _ \<Rightarrow> Raised RangeError)"

section \<open>The parameter store\<close>

text \<open>The unit state is the string \<open>"in"\<close> or \<open>"mm"\<close>.\<close>

datatype unit_name = UnitIn | UnitMm

text \<open>
  \<^verbatim>\<open>const uiVal = (inches) => (unit === "in" ? inches : inches * 25.4);
  const fromUi = (val) => (unit === "in" ? val : val / 25.4);\<close>
\<close>

definition uiVal :: "unit_name \<Rightarrow> jsnum \<Rightarrow> jsnum" where
  "uiVal unit inches = (if unit = UnitIn then inches else js_mul inches (Num 25.4))"

definition fromUi :: "unit_name \<Rightarrow> jsnum \<Rightarrow> jsnum" where
  "fromUi unit val = (if unit = UnitIn then val else js_div val (Num 25.4))"

text \<open>
  \<^verbatim>\<open>function inchesToEngineeringStr(inches, precision = 2) {
    const sign = inches < 0 ? "-" : "";
    const abs = Math.abs(inches);
    const feet = Math.floor(abs / 12);
    const inch = abs - feet * 12;
    const inc = inch.toFixed(precision);
    return `${sign}${feet}'-${inc}\"`; }\<close>
  A precision that is not passed is \<open>None\<close>.
\<close>

definition inchesToEngineeringStr :: "jsnum \<Rightarrow> jsnum option \<Rightarrow> string result" where
  "inchesToEngineeringStr inches precision =
     (let prec = (case precision of None \<Rightarrow> Num 2 | Some q \<Rightarrow> q);
          sign = (if js_less inches (Num 0) then ''-'' else []);
          abs = Math_abs inches;
          feet = Math_floor (js_div abs (Num 12));
          inch = js_sub abs (js_mul feet (Num 12))
      in bind_result (toFixed inch prec) (\<lambda>inc.
         bind_result (Number_toString feet) (\<lambda>ft.
         Returns (sign @ ft @ [CHR 0x27, CHR ''-''] @ inc @ [CHR 0x22]))))"

text \<open>
  \<^verbatim>\<open>function formatValue({ valueInInches, unit, precision }) {
    if (unit === "in") return `${valueInInches.toFixed(precision)}\"`;
    const mm = valueInInches * 25.4;
    return `${mm.toFixed(precision)} mm`; }\<close>
\<close>

definition formatValue :: "jsnum \<Rightarrow> unit_name \<Rightarrow> jsnum \<Rightarrow> string result" where
  "formatValue valueInInches unit precision =
     (if unit = UnitIn
      then bind_result (toFixed valueInInches precision) (\<lambda>t. Returns (t @ [CHR 0x22]))
      else (let mm = js_mul valueInInches (Num 25.4)
            in bind_result (toFixed mm precision) (\<lambda>t. Returns (t @ '' mm''))))"

text \<open>The state \<open>params\<close>: three fields in inches, created with the defaults below.\<close>

record params =
  width_in :: jsnum
  thickness_in :: jsnum
  centerHoleDia_in :: jsnum

definition initial_params :: params where
  "initial_params = \<lparr>width_in = Num 10, thickness_in = Num 2.5, centerHoleDia_in = Num 2.5\<rparr>"

text \<open>The keys the inputs pass to \<open>setParam\<close> are the three field names.\<close>

datatype key = Width_in | Thickness_in | CenterHoleDia_in

fun get_field :: "params \<Rightarrow> key \<Rightarrow> jsnum" where
  "get_field s Width_in = width_in s"
| "get_field s Thickness_in = thickness_in s"
| "get_field s CenterHoleDia_in = centerHoleDia_in s"

fun set_field :: "params \<Rightarrow> key \<Rightarrow> jsnum \<Rightarrow> params" where
  "set_field s Width_in v = s\<lparr>width_in := v\<rparr>"
| "set_field s Thickness_in v = s\<lparr>thickness_in := v\<rparr>"
| "set_field s CenterHoleDia_in v = s\<lparr>centerHoleDia_in := v\<rparr>"

text \<open>
  \<^verbatim>\<open>const setParam = (key, uiValue) =>
    setParams((s) => ({ ...s, [key]: fromUi(ensureNumber(uiValue, uiVal(s[key])) ) }));\<close>
  The unit is the one of the render in which the handler was created.
\<close>

definition setParam :: "unit_name \<Rightarrow> key \<Rightarrow> jsval \<Rightarrow> params \<Rightarrow> params" where
  "setParam unit k uiValue s =
     set_field s k (fromUi unit (ensureNumber uiValue (uiVal unit (get_field s k))))"

text \<open>A sequence of updates, each with the unit selected when it happens.\<close>

fun run_updates :: "params \<Rightarrow> (unit_name \<times> key \<times> jsval) list \<Rightarrow> params" where
  "run_updates s [] = s"
| "run_updates s ((unit, k, v) # us) = run_updates (setParam unit k v s) us"

text \<open>
  The derived view \<open>computed\<close>: a copy of the parameters, clamped field by field,
  with the half extents and the scale. Its \<open>px\<close> is the function below.
\<close>

record computed =
  comp_p :: params
  comp_hw :: jsnum
  comp_ht :: jsnum
  comp_scale :: jsnum

definition clamp_params :: "params \<Rightarrow> params" where
  "clamp_params s =
     (let p = s;
          p = p\<lparr>width_in := clamp (width_in p) (Num 2) (Num 36)\<rparr>;
          p = p\<lparr>thickness_in := clamp (thickness_in p) (Num 0.1) (Num 10)\<rparr>;
          p = p\<lparr>centerHoleDia_in :=
                 clamp (centerHoleDia_in p) (Num 0.1) (js_mul (width_in p) (Num 0.9))\<rparr>
      in p)"

definition compute :: "params \<Rightarrow> computed" where
  "compute s =
     (let p = clamp_params s
      in \<lparr>comp_p = p,
          comp_hw = js_div (width_in p) (Num 2),
          comp_ht = js_div (thickness_in p) (Num 2),
          comp_scale = Num 8\<rparr>)"

definition px :: "jsnum \<Rightarrow> jsnum \<Rightarrow> jsnum" where
  "px zoom x = js_mul (js_mul x (Num 8)) zoom"

text \<open>
  The payload of \<open>downloadJSON\<close> is \<open>JSON.stringify(params, null, 2)\<close>: the stored
  state, not the derived view. The document is kept as its list of members, in
  property order; a number that is not finite is serialised as \<open>null\<close>. The digits
  that \<open>JSON.stringify\<close> prints for a number are not modelled.
\<close>

datatype json = JsonNumber real | JsonNull

fun json_of :: "jsnum \<Rightarrow> json" where
  "json_of (Num r) = JsonNumber r"
| "json_of _ = JsonNull"

definition downloadJSON :: "params \<Rightarrow> (string \<times> json) list" where
  "downloadJSON s =
     [(''width_in'', json_of (width_in s)),
      (''thickness_in'', json_of (thickness_in s)),
      (''centerHoleDia_in'', json_of (centerHoleDia_in s))]"


section \<open>Dimension annotations\<close>

text \<open>
  The properties passed to \<open>Dim\<close>. \<open>offset\<close> and \<open>rotate\<close> may be left out
  (\<open>None\<close>); an offset left out is \<open>20\<close>. \<open>orient\<close> is never read.
\<close>

record dim_props =
  dim_x1 :: jsnum
  dim_y1 :: jsnum
  dim_x2 :: jsnum
  dim_y2 :: jsnum
  dim_offset :: "jsnum option"
  dim_text :: "string result"
  dim_rotate :: "jsnum option"

text \<open>What \<open>Dim\<close> draws: two extension lines, the dimension line and the text.\<close>

record line =
  line_x1 :: jsnum
  line_y1 :: jsnum
  line_x2 :: jsnum
  line_y2 :: jsnum

record dim_drawing =
  ext_line1 :: line
  ext_line2 :: line
  dimension_line :: line
  text_x :: jsnum
  text_y :: jsnum
  text_rotation :: "(jsnum \<times> jsnum \<times> jsnum) option"
  text_content :: "string result"

text \<open>A number is falsy when it is \<open>0\<close> or NaN; \<open>undefined\<close> is falsy.\<close>

fun truthy :: "jsnum \<Rightarrow> bool" where
  "truthy (Num r) = (r \<noteq> 0)"
| "truthy NaN = False"
| "truthy _ = True"

definition truthy_opt :: "jsnum option \<Rightarrow> bool" where
  "truthy_opt v = (case v of None \<Rightarrow> False | Some n \<Rightarrow> truthy n)"

text \<open>
  \<^verbatim>\<open>const dx = x2 - x1;  const dy = y2 - y1;
  const len = Math.hypot(dx, dy);
  const ux = dx / (len || 1);  const uy = dy / (len || 1);
  const nx = -uy;  const ny = ux;
  const ox = x1 + nx * offset;  const oy = y1 + ny * offset;
  const px = x2 + nx * offset;  const py = y2 + ny * offset;\<close>
  The lines are \<open>(x1,y1)-(ox,oy)\<close>, \<open>(x2,y2)-(px,py)\<close> and \<open>(ox,oy)-(px,py)\<close>; the
  text sits at \<open>((ox + px) / 2 + (rotate ? 14 : 0), (oy + py) / 2 - (rotate ? 22 : 6))\<close>
  and is rotated, when \<open>rotate\<close> is truthy, about \<open>((ox + px) / 2 + 14, (oy + py) / 2)\<close>.
\<close>

definition Dim :: "dim_props \<Rightarrow> dim_drawing" where
  "Dim props =
     (let x1 = dim_x1 props; y1 = dim_y1 props; x2 = dim_x2 props; y2 = dim_y2 props;
          offset = (case dim_offset props of None \<Rightarrow> Num 20 | Some v \<Rightarrow> v);
          rotate = dim_rotate props;
          dx = js_sub x2 x1;
          dy = js_sub y2 y1;
          len = Math_hypot dx dy;
          ux = js_div dx (if truthy len then len else Num 1);
          uy = js_div dy (if truthy len then len else Num 1);
          nx = js_neg uy;
          ny = ux;
          ox = js_add x1 (js_mul nx offset);
          oy = js_add y1 (js_mul ny offset);
          px = js_add x2 (js_mul nx offset);
          py = js_add y2 (js_mul ny offset)
      in \<lparr>ext_line1 = \<lparr>line_x1 = x1, line_y1 = y1, line_x2 = ox, line_y2 = oy\<rparr>,
          ext_line2 = \<lparr>line_x1 = x2, line_y1 = y2, line_x2 = px, line_y2 = py\<rparr>,
          dimension_line = \<lparr>line_x1 = ox, line_y1 = oy, line_x2 = px, line_y2 = py\<rparr>,
          text_x = js_add (js_div (js_add ox px) (Num 2))
                     (if truthy_opt rotate then Num 14 else Num 0),
          text_y = js_sub (js_div (js_add oy py) (Num 2))
                     (if truthy_opt rotate then Num 22 else Num 6),
          text_rotation =
            (case rotate of
               None \<Rightarrow> None
             | Some r \<Rightarrow>
                 if truthy r
                 then Some (r, js_add (js_div (js_add ox px) (Num 2)) (Num 14),
                            js_div (js_add oy py) (Num 2))
                 else None),
          text_content = dim_text props\<rparr>)"

text \<open>
  The three annotations of the drawing, in the order of the page (width, thickness,
  centre hole), present when \<open>showDims\<close> is set. Strings are UTF-8 byte strings:
  the diameter sign U+2300 is the bytes \<open>E2 8C 80\<close>.
\<close>

definition diameter_sign :: string where
  "diameter_sign = [CHR 0xE2, CHR 0x8C, CHR 0x80]"

definition width_text :: "unit_name \<Rightarrow> jsnum \<Rightarrow> params \<Rightarrow> string result" where
  "width_text unit precision p =
     bind_result
       (if unit = UnitIn then inchesToEngineeringStr (width_in p) (Some precision)
        else formatValue (width_in p) unit precision)
       (\<lambda>t. Returns (''WIDTH = '' @ t))"

definition thickness_text :: "unit_name \<Rightarrow> jsnum \<Rightarrow> params \<Rightarrow> string result" where
  "thickness_text unit precision p = formatValue (thickness_in p) unit precision"

definition hole_text :: "unit_name \<Rightarrow> jsnum \<Rightarrow> params \<Rightarrow> string result" where
  "hole_text unit precision p =
     bind_result (formatValue (centerHoleDia_in p) unit precision)
       (\<lambda>t. Returns (diameter_sign @ t))"

definition dimensions :: "unit_name \<Rightarrow> jsnum \<Rightarrow> jsnum \<Rightarrow> bool \<Rightarrow> params \<Rightarrow> dim_props list" where
  "dimensions unit precision zoom showDims s =
     (let c = compute s; p = comp_p c;
          left = js_neg (comp_hw c); right = comp_hw c;
          top = js_neg (comp_ht c); bottom = comp_ht c
      in if showDims then
           [\<lparr>dim_x1 = px zoom left, dim_y1 = px zoom bottom,
             dim_x2 = px zoom right, dim_y2 = px zoom bottom,
             dim_offset = Some (Num 40), dim_text = width_text unit precision p,
             dim_rotate = None\<rparr>,
            \<lparr>dim_x1 = px zoom left, dim_y1 = px zoom top,
             dim_x2 = px zoom left, dim_y2 = px zoom bottom,
             dim_offset = Some (Num 60), dim_text = thickness_text unit precision p,
             dim_rotate = Some (Num (- 90))\<rparr>,
            \<lparr>dim_x1 = px zoom (js_div (js_neg (centerHoleDia_in p)) (Num 2)), dim_y1 = px zoom top,
             dim_x2 = px zoom (js_div (centerHoleDia_in p) (Num 2)), dim_y2 = px zoom top,
             dim_offset = Some (Num (- 20)), dim_text = hole_text unit precision p,
             dim_rotate = None\<rparr>]
         else [])"

section \<open>Notions used in the statements\<close>

text \<open>No field of the store is NaN.\<close>

definition no_NaN :: "params \<Rightarrow> bool" where
  "no_NaN s = (width_in s \<noteq> NaN \<and> thickness_in s \<noteq> NaN \<and> centerHoleDia_in s \<noteq> NaN)"

text \<open>
  A decimal numeral with exactly \<open>p\<close> fractional digits: at least one digit, and
  for \<open>p > 0\<close> a dot followed by \<open>p\<close> digits.
\<close>

definition decimal_with :: "nat \<Rightarrow> string \<Rightarrow> bool" where
  "decimal_with p t =
     (let fr = drop (length t - p) t;
          ip = take (length t - p - (if p = 0 then 0 else 1)) t
      in length fr = p \<and> ip \<noteq> [] \<and> list_all is_digit ip \<and> list_all is_digit fr
         \<and> t = ip @ (if p = 0 then [] else ''.'') @ fr)"

text \<open>Every coordinate of a drawn annotation is a finite number.\<close>

definition line_finite :: "line \<Rightarrow> bool" where
  "line_finite seg =
     (isFinite (line_x1 seg) \<and> isFinite (line_y1 seg)
      \<and> isFinite (line_x2 seg) \<and> isFinite (line_y2 seg))"

definition drawing_finite :: "dim_drawing \<Rightarrow> bool" where
  "drawing_finite d =
     (line_finite (ext_line1 d) \<and> line_finite (ext_line2 d) \<and> line_finite (dimension_line d)
      \<and> isFinite (text_x d) \<and> isFinite (text_y d)
      \<and> (case text_rotation d of
            None \<Rightarrow> True
          | Some (r, cx, cy) \<Rightarrow> isFinite cx \<and> isFinite cy))"

section \<open>Evaluation and basic facts\<close>

lemmas parse_defs =
  StringToNumber_def trim_def is_ws_def is_ws2_def is_ws3_def signed_decimal_def unsigned_decimal_def is_digit_def
  digit_val_def radix_of_def digits_value_def digits_or_zero_def exponent_part_def pow10_def
  mk_def overflow_at_def signed_inf_def

lemmas render_defs =
  inchesToEngineeringStr_def formatValue_def toFixed_def fixed_digits_def digit_char_def
  digits_of.simps
  js_sub_def mk_def overflow_at_def Let_def

declare digits_of.simps [simp del]

lemma overflow_at_pos: "2 ^ 1023 < overflow_at"
  unfolding overflow_at_def by simp

lemma mk_Num: "\<bar>r\<bar> \<le> 2 ^ 1023 \<Longrightarrow> mk r = Num r"
  using overflow_at_pos unfolding mk_def by auto

lemma mk_small: "\<bar>r\<bar> \<le> 1000 \<Longrightarrow> mk r = Num r"
  by (rule mk_Num) (simp add: order_trans[of _ 1000])

lemma mk_not_NaN: "mk r \<noteq> NaN"
  unfolding mk_def by simp

lemma StringToNumber_abc: "StringToNumber ''abc'' = NaN"
  by (simp add: parse_defs)

lemma StringToNumber_empty: "StringToNumber [] = Num 0"
  by (simp add: parse_defs)

subsection \<open>NaN never enters the store\<close>

lemma uiVal_not_NaN: "x \<noteq> NaN \<Longrightarrow> uiVal unit x \<noteq> NaN"
  by (cases x) (auto simp: uiVal_def mk_not_NaN signed_inf_def)

lemma fromUi_not_NaN: "x \<noteq> NaN \<Longrightarrow> fromUi unit x \<noteq> NaN"
  by (cases x) (auto simp: fromUi_def mk_not_NaN signed_inf_def)

lemma ensureNumber_not_NaN: "fb \<noteq> NaN \<Longrightarrow> ensureNumber v fb \<noteq> NaN"
  by (cases "Number v") (auto simp: ensureNumber_def Let_def)

lemma setParam_no_NaN: "no_NaN s \<Longrightarrow> no_NaN (setParam unit k v s)"
  by (cases k) (auto simp: no_NaN_def setParam_def fromUi_not_NaN ensureNumber_not_NaN uiVal_not_NaN)

lemma run_updates_no_NaN: "no_NaN s \<Longrightarrow> no_NaN (run_updates s us)"
  by (induction s us rule: run_updates.induct) (auto simp: setParam_no_NaN)

lemma initial_no_NaN: "no_NaN initial_params"
  by (simp add: no_NaN_def initial_params_def)

lemma reachable_no_NaN: "no_NaN (run_updates initial_params us)"
  by (rule run_updates_no_NaN[OF initial_no_NaN])

subsection \<open>Clamping\<close>

lemma clamp_range:
  assumes "v \<noteq> NaN" "a \<le> b"
  shows "\<exists>c. clamp v (Num a) (Num b) = Num c \<and> a \<le> c \<and> c \<le> b"
  using assms by (cases v) (auto simp: clamp_def)

lemma clamp_params_fields:
  "width_in (clamp_params s) = clamp (width_in s) (Num 2) (Num 36)"
  "thickness_in (clamp_params s) = clamp (thickness_in s) (Num 0.1) (Num 10)"
  "centerHoleDia_in (clamp_params s) =
     clamp (centerHoleDia_in s) (Num 0.1) (js_mul (width_in (clamp_params s)) (Num 0.9))"
  by (simp_all add: clamp_params_def Let_def)

lemma clamp_params_range:
  assumes "no_NaN s"
  shows "\<exists>w t h. clamp_params s = \<lparr>width_in = Num w, thickness_in = Num t, centerHoleDia_in = Num h\<rparr>
     \<and> 2 \<le> w \<and> w \<le> 36 \<and> 0.1 \<le> t \<and> t \<le> 10 \<and> 0.1 \<le> h \<and> h \<le> 0.9 * w"
proof -
  from assms have n: "width_in s \<noteq> NaN" "thickness_in s \<noteq> NaN" "centerHoleDia_in s \<noteq> NaN"
    by (simp_all add: no_NaN_def)
  obtain w where w: "clamp (width_in s) (Num 2) (Num 36) = Num w" "2 \<le> w" "w \<le> 36"
    using clamp_range[OF n(1), of 2 36] by auto
  obtain t where t: "clamp (thickness_in s) (Num 0.1) (Num 10) = Num t" "0.1 \<le> t" "t \<le> 10"
    using clamp_range[OF n(2), of "0.1" 10] by auto
  have m: "js_mul (Num w) (Num 0.9) = Num (0.9 * w)"
    using w by (simp add: mk_small mult.commute)
  have "0.1 \<le> 0.9 * w" using w by simp
  then obtain h where h: "clamp (centerHoleDia_in s) (Num 0.1) (Num (0.9 * w)) = Num h"
      "0.1 \<le> h" "h \<le> 0.9 * w"
    using clamp_range[OF n(3), of "0.1" "0.9 * w"] by auto
  show ?thesis
    using w t h m by (cases s) (simp add: clamp_params_def Let_def)
qed

lemma set_get_same: "get_field (set_field s k v) k = v"
  by (cases k) simp_all


lemma run_updates_append:
  "run_updates s (us @ vs) = run_updates (run_updates s us) vs"
  by (induction s us rule: run_updates.induct) simp_all

section \<open>Facts about the renderings\<close>

lemma is_digit_digit_char: "d < 10 \<Longrightarrow> is_digit (digit_char d)"
proof -
  assume "d < 10"
  then have "d \<in> {0, 1, 2, 3, 4, 5, 6, 7, 8, 9}" by auto
  then show ?thesis
    by (auto simp: is_digit_def digit_val_def digit_char_def)
qed

lemma digits_of_digits: "list_all is_digit (digits_of n)"
proof (induction n rule: digits_of.induct)
  case (1 n)
  show ?case
  proof (cases "n < 10")
    case True
    then show ?thesis by (subst digits_of.simps) (simp add: is_digit_digit_char)
  next
    case False
    with 1 show ?thesis by (subst digits_of.simps) (simp add: is_digit_digit_char)
  qed
qed

lemma digits_of_nonempty: "digits_of n \<noteq> []"
  by (subst digits_of.simps) simp

lemma is_digit_zero: "is_digit (CHR ''0'')"
  by (simp add: is_digit_def digit_val_def)

lemma fixed_digits_shape: "decimal_with p (fixed_digits p n)"
proof (cases "p = 0")
  case True
  then show ?thesis
    by (simp add: decimal_with_def fixed_digits_def digits_of_digits digits_of_nonempty)
next
  case False
  define m where "m = (if length (digits_of n) \<le> p
      then replicate (p + 1 - length (digits_of n)) (CHR ''0'') @ digits_of n else digits_of n)"
  have len: "p < length m"
    by (auto simp: m_def)
  have dig: "list_all is_digit m"
    using digits_of_digits[of n] by (auto simp: m_def is_digit_zero list_all_iff)
  have fd: "fixed_digits p n = take (length m - p) m @ ''.'' @ drop (length m - p) m"
    using False by (simp add: fixed_digits_def Let_def m_def)
  have l: "length (fixed_digits p n) = length m + 1"
    unfolding fd using len by simp
  have t: "take (length m - p) (fixed_digits p n) = take (length m - p) m"
    unfolding fd using len by simp
  have d: "drop (length m + 1 - p) (fixed_digits p n) = drop (length m - p) m"
    unfolding fd using len by (simp add: Suc_diff_le)
  have "list_all is_digit (take (length m - p) m)" "list_all is_digit (drop (length m - p) m)"
    using dig by (auto simp: list_all_iff dest: in_set_takeD in_set_dropD)
  moreover have "take (length m - p) m \<noteq> []" using len by auto
  moreover have "length (drop (length m - p) m) = p" using len by simp
  ultimately show ?thesis
    using False unfolding decimal_with_def Let_def l t d
    by (simp add: t fd)
qed


lemma toFixed_nonneg:
  assumes "0 \<le> r" "r < 10 ^ 21" "p \<le> 100"
  shows "toFixed (Num r) (Num (real p)) = Returns (fixed_digits p (nat \<lfloor>r * 10 ^ p + 1 / 2\<rfloor>))"
  using assms by (simp add: toFixed_def)

lemma decimal_with_no_minus: "decimal_with p t \<Longrightarrow> CHR ''-'' \<notin> set t"
proof
  assume d: "decimal_with p t" and m: "CHR ''-'' \<in> set t"
  define fr where "fr = drop (length t - p) t"
  define ip where "ip = take (length t - p - (if p = 0 then 0 else 1)) t"
  from d have a: "list_all is_digit ip" "list_all is_digit fr"
    and t: "t = ip @ (if p = 0 then [] else ''.'') @ fr"
    unfolding decimal_with_def Let_def fr_def[symmetric] ip_def[symmetric] by simp_all
  have "\<not> is_digit (CHR ''-'')" by (simp add: is_digit_def digit_val_def)
  with a have "CHR ''-'' \<notin> set ip" "CHR ''-'' \<notin> set fr"
    by (auto simp: list_all_iff)
  moreover have "set t \<subseteq> set ip \<union> {CHR ''.''} \<union> set fr"
    by (subst t) auto
  ultimately show False using m by auto
qed

lemma feet_parts:
  fixes v :: real
  defines "f \<equiv> \<lfloor>\<bar>v\<bar> / 12\<rfloor>"
  shows "0 \<le> f" "0 \<le> \<bar>v\<bar> - of_int f * 12" "\<bar>v\<bar> - of_int f * 12 < 12" "of_int f \<le> \<bar>v\<bar> / 12"
proof -
  show "0 \<le> f" unfolding f_def by simp
  have a: "of_int f \<le> \<bar>v\<bar> / 12" unfolding f_def by (rule of_int_floor_le)
  then show "of_int f \<le> \<bar>v\<bar> / 12" .
  from a show "0 \<le> \<bar>v\<bar> - of_int f * 12" by simp
  have "\<bar>v\<bar> / 12 < of_int f + 1" unfolding f_def by linarith
  then show "\<bar>v\<bar> - of_int f * 12 < 12" by simp
qed

lemma engineering_general:
  fixes v :: real and p :: nat
  assumes v: "\<bar>v\<bar> < 12 * 2 ^ 53" and p: "p \<le> 100"
  defines "feet \<equiv> nat \<lfloor>\<bar>v\<bar> / 12\<rfloor>"
  defines "rem \<equiv> \<bar>v\<bar> - real feet * 12"
  shows "inchesToEngineeringStr (Num v) (Some (Num (real p)))
      = Returns ((if v < 0 then ''-'' else []) @ digits_of feet @ [CHR 0x27, CHR ''-'']
                 @ fixed_digits p (nat \<lfloor>rem * 10 ^ p + 1 / 2\<rfloor>) @ [CHR 0x22])"
proof -
  define f where "f = \<lfloor>\<bar>v\<bar> / 12\<rfloor>"
  note fp = feet_parts[of v, folded f_def]
  have ff: "real feet = of_int f" unfolding feet_def f_def[symmetric] using fp(1) by simp
  have fb: "of_int f < (2::real) ^ 53" using fp(4) v by linarith
  have big: "(2::real) ^ 53 * 12 \<le> 2 ^ 1023" by simp
  have d: "js_div (Num \<bar>v\<bar>) (Num 12) = Num (\<bar>v\<bar> / 12)"
    using v by (simp add: mk_Num)
  have fl: "Math_floor (Num (\<bar>v\<bar> / 12)) = Num (of_int f)" by (simp add: f_def)
  have m: "js_mul (Num (of_int f)) (Num 12) = Num (of_int f * 12)"
    using fp(1) fb by (simp add: mk_Num)
  have s: "js_sub (Num \<bar>v\<bar>) (Num (of_int f * 12)) = Num (\<bar>v\<bar> - of_int f * 12)"
    using fp(2,3) by (simp add: js_sub_def mk_Num)
  have r: "rem = \<bar>v\<bar> - of_int f * 12" by (simp add: rem_def ff)
  have tf: "toFixed (Num rem) (Num (real p))
      = Returns (fixed_digits p (nat \<lfloor>rem * 10 ^ p + 1 / 2\<rfloor>))"
    using fp(2,3) p unfolding r by (intro toFixed_nonneg) auto
  have ts: "Number_toString (Num (of_int f)) = Returns (digits_of feet)"
    using fp(1) fb by (simp add: feet_def f_def)
  show ?thesis
    unfolding inchesToEngineeringStr_def Let_def
    by (simp only: option.case Math_abs.simps js_less.simps d fl m s r[symmetric] tf ts
        bind_result.simps)
qed


lemma nearest_integer:
  fixes x :: real
  assumes "0 \<le> x"
  shows "\<bar>real (nat \<lfloor>x + 1 / 2\<rfloor>) - x\<bar> \<le> 1 / 2"
proof -
  have "0 \<le> \<lfloor>x + 1 / 2\<rfloor>" using assms by simp
  then have "real (nat \<lfloor>x + 1 / 2\<rfloor>) = of_int \<lfloor>x + 1 / 2\<rfloor>" by simp
  then show ?thesis by linarith
qed

section \<open>The parameter store: updates and the derived view\<close>



text \<open>
  C2, as stated, fails for the parameters that the export shows. The sequence that
  first sets the hole to \<open>9\<close> (valid for the width \<open>10\<close>) and then shrinks the
  width to \<open>5\<close> leaves the hole \<open>9\<close> in the store, and the exported document holds
  the width \<open>5\<close> and the hole \<open>9\<close>, above \<open>5 * 0.9\<close>.
\<close>

theorem exported_hole_exceeds_bound_counterexample:
  "downloadJSON (run_updates initial_params
       [(UnitIn, CenterHoleDia_in, JStr ''9''), (UnitIn, Width_in, JStr ''5'')])
     = [(''width_in'', JsonNumber 5), (''thickness_in'', JsonNumber 2.5),
        (''centerHoleDia_in'', JsonNumber 9)]
   \<and> js_mul (Num 5) (Num 0.9) = Num 4.5
   \<and> \<not> js_le (centerHoleDia_in (run_updates initial_params
          [(UnitIn, CenterHoleDia_in, JStr ''9''), (UnitIn, Width_in, JStr ''5'')]))
        (js_mul (width_in (run_updates initial_params
          [(UnitIn, CenterHoleDia_in, JStr ''9''), (UnitIn, Width_in, JStr ''5'')])) (Num 0.9))"
proof -
  have n: "StringToNumber ''9'' = Num 9" "StringToNumber ''5'' = Num 5"
    by (simp_all add: parse_defs)
  have s: "run_updates initial_params
       [(UnitIn, CenterHoleDia_in, JStr ''9''), (UnitIn, Width_in, JStr ''5'')]
     = \<lparr>width_in = Num 5, thickness_in = Num 2.5, centerHoleDia_in = Num 9\<rparr>"
    by (simp add: setParam_def ensureNumber_def n fromUi_def initial_params_def)
  show ?thesis
    unfolding s by (simp add: downloadJSON_def mk_def overflow_at_def)
qed

text \<open>
  C2, as the code has it. After every finite sequence of updates from the defaults,
  the parameters the drawing sees (the derived view) have a finite width and a finite
  hole diameter, the hole is the stored hole clamped to \<open>[0.1, width * 0.9]\<close> with
  the width of the view, and it does not exceed that product \<open>width * 0.9\<close>.
\<close>

theorem hole_within_bound_after_updates:
  "let s = run_updates initial_params us;
       p = comp_p (compute s)
   in isFinite (width_in p) \<and> isFinite (centerHoleDia_in p)
      \<and> centerHoleDia_in p
          = clamp (centerHoleDia_in s) (Num 0.1) (js_mul (width_in p) (Num 0.9))
      \<and> js_le (centerHoleDia_in p) (js_mul (width_in p) (Num 0.9))"
proof -
  obtain w t h where p: "clamp_params (run_updates initial_params us)
        = \<lparr>width_in = Num w, thickness_in = Num t, centerHoleDia_in = Num h\<rparr>"
    and b: "2 \<le> w" "w \<le> 36" "h \<le> 0.9 * w"
    using clamp_params_range[OF reachable_no_NaN[of us]] by blast
  have m: "js_mul (Num w) (Num 0.9) = Num (0.9 * w)"
    using b by (simp add: mk_small mult.commute)
  have c: "centerHoleDia_in (clamp_params (run_updates initial_params us))
      = clamp (centerHoleDia_in (run_updates initial_params us)) (Num 0.1)
          (js_mul (width_in (clamp_params (run_updates initial_params us))) (Num 0.9))"
    by (rule clamp_params_fields(3))
  have f: "isFinite (width_in (clamp_params (run_updates initial_params us)))"
    "isFinite (centerHoleDia_in (clamp_params (run_updates initial_params us)))"
    by (simp_all add: p)
  have l: "js_le (centerHoleDia_in (clamp_params (run_updates initial_params us)))
      (js_mul (width_in (clamp_params (run_updates initial_params us))) (Num 0.9))"
    unfolding p using m b by auto
  have v: "comp_p (compute (run_updates initial_params us))
      = clamp_params (run_updates initial_params us)"
    by (simp add: compute_def Let_def)
  show ?thesis
    unfolding Let_def v using f c l by (intro conjI)
qed

text \<open>
  The same sequence, hole \<open>9\<close> and then width \<open>5\<close>: the store keeps \<open>9\<close>, the
  drawing sees \<open>4.5\<close>.
\<close>

theorem hole_within_bound_after_updates_witness:
  "run_updates initial_params
       [(UnitIn, CenterHoleDia_in, JStr ''9''), (UnitIn, Width_in, JStr ''5'')]
     = \<lparr>width_in = Num 5, thickness_in = Num 2.5, centerHoleDia_in = Num 9\<rparr>
   \<and> comp_p (compute (run_updates initial_params
       [(UnitIn, CenterHoleDia_in, JStr ''9''), (UnitIn, Width_in, JStr ''5'')]))
     = \<lparr>width_in = Num 5, thickness_in = Num 2.5, centerHoleDia_in = Num 4.5\<rparr>
   \<and> js_le (centerHoleDia_in (comp_p (compute (run_updates initial_params
          [(UnitIn, CenterHoleDia_in, JStr ''9''), (UnitIn, Width_in, JStr ''5'')]))))
        (js_mul (width_in (comp_p (compute (run_updates initial_params
          [(UnitIn, CenterHoleDia_in, JStr ''9''), (UnitIn, Width_in, JStr ''5'')]))))
          (Num 0.9))"
proof -
  have n: "StringToNumber ''9'' = Num 9" "StringToNumber ''5'' = Num 5"
    by (simp_all add: parse_defs)
  have s: "run_updates initial_params
       [(UnitIn, CenterHoleDia_in, JStr ''9''), (UnitIn, Width_in, JStr ''5'')]
     = \<lparr>width_in = Num 5, thickness_in = Num 2.5, centerHoleDia_in = Num 9\<rparr>"
    by (simp add: setParam_def ensureNumber_def n fromUi_def initial_params_def)
  have p: "comp_p (compute (run_updates initial_params
       [(UnitIn, CenterHoleDia_in, JStr ''9''), (UnitIn, Width_in, JStr ''5'')]))
     = \<lparr>width_in = Num 5, thickness_in = Num 2.5, centerHoleDia_in = Num 4.5\<rparr>"
    unfolding s by (simp add: compute_def Let_def clamp_params_def clamp_def mk_def overflow_at_def)
  have t: "js_le (centerHoleDia_in (comp_p (compute (run_updates initial_params
          [(UnitIn, CenterHoleDia_in, JStr ''9''), (UnitIn, Width_in, JStr ''5'')]))))
        (js_mul (width_in (comp_p (compute (run_updates initial_params
          [(UnitIn, CenterHoleDia_in, JStr ''9''), (UnitIn, Width_in, JStr ''5'')]))))
          (Num 0.9))"
    using hole_within_bound_after_updates
      [of "[(UnitIn, CenterHoleDia_in, JStr ''9''), (UnitIn, Width_in, JStr ''5'')]"]
    unfolding Let_def by (elim conjE)
  from s p t show ?thesis by (intro conjI)
qed

text \<open>
  C3 fails on the code where the conversion to millimetres overflows: with the width
  \<open>1e308\<close> stored (entered in inches) and the unit switched to mm, the fallback
  \<open>uiVal(s[key])\<close> is \<open>Infinity\<close>, and the raw value \<open>abc\<close> replaces the width by
  \<open>Infinity\<close>.
\<close>

theorem invalid_input_overflow_stores_infinity:
  "\<not> isFinite (Number (JStr ''abc''))
   \<and> width_in (run_updates initial_params [(UnitIn, Width_in, JStr ''1e308'')]) = Num (10 ^ 308)
   \<and> width_in (setParam UnitMm Width_in (JStr ''abc'')
        (run_updates initial_params [(UnitIn, Width_in, JStr ''1e308'')])) = PosInf
   \<and> width_in (setParam UnitMm Width_in (JStr ''abc'')
        (run_updates initial_params [(UnitIn, Width_in, JStr ''1e308'')]))
       \<noteq> width_in (run_updates initial_params [(UnitIn, Width_in, JStr ''1e308'')])"
proof -
  have n: "StringToNumber ''1e308'' = Num (10 ^ 308)"
    by (simp add: parse_defs)
  have s: "run_updates initial_params [(UnitIn, Width_in, JStr ''1e308'')]
     = \<lparr>width_in = Num (10 ^ 308), thickness_in = Num 2.5, centerHoleDia_in = Num 2.5\<rparr>"
    by (simp add: setParam_def ensureNumber_def n fromUi_def initial_params_def)
  have w: "width_in (setParam UnitMm Width_in (JStr ''abc'')
        \<lparr>width_in = Num (10 ^ 308), thickness_in = Num 2.5, centerHoleDia_in = Num 2.5\<rparr>) = PosInf"
    by (simp add: setParam_def ensureNumber_def StringToNumber_abc uiVal_def mk_def overflow_at_def
        fromUi_def signed_inf_def)
  show ?thesis
    unfolding s w by (simp add: StringToNumber_abc)
qed

text \<open>
  With the unit inches the same update keeps the store as it is: no conversion takes
  place, and the fallback is the stored value itself.
\<close>

lemma invalid_input_inches_keeps_store:
  assumes "\<not> isFinite (Number raw)"
  shows "setParam UnitIn k raw s = s"
  using assms by (cases k) (simp_all add: setParam_def ensureNumber_def fromUi_def uiVal_def)

text \<open>
  C9. The empty string is the finite number \<open>0\<close>: after any update sequence, an
  update of a field with the empty string stores \<open>0\<close> in it, whatever the unit, and
  the drawing sees the lower bound of that field. \<open>ensureNumber\<close> returns the
  fallback exactly when the raw value converts to a number that is not finite, as
  \<open>abc\<close> does.
\<close>

theorem empty_string_stores_zero:
  "let s = run_updates initial_params us;
       s' = setParam unit k (JStr []) s
   in Number (JStr []) = Num 0
      \<and> get_field s' k = Num 0
      \<and> get_field (comp_p (compute s')) k = (case k of Width_in \<Rightarrow> Num 2 | _ \<Rightarrow> Num 0.1)
      \<and> ensureNumber raw fb = (if isFinite (Number raw) then Number raw else fb)
      \<and> Number (JStr ''abc'') = NaN \<and> \<not> isFinite (Number (JStr ''abc''))"
proof -
  define s where "s = run_updates initial_params us"
  define s' where "s' = setParam unit k (JStr []) s"
  have z: "get_field s' k = Num 0"
    unfolding s'_def
    by (cases unit) (simp_all add: setParam_def set_get_same ensureNumber_def StringToNumber_empty
        fromUi_def mk_def overflow_at_def)
  have "no_NaN s'"
    unfolding s'_def s_def by (intro setParam_no_NaN reachable_no_NaN)
  then obtain w t h where p: "clamp_params s'
        = \<lparr>width_in = Num w, thickness_in = Num t, centerHoleDia_in = Num h\<rparr>"
    and b: "2 \<le> w" "w \<le> 36"
    using clamp_params_range by blast
  have m: "js_mul (Num w) (Num 0.9) = Num (0.9 * w)"
    using b by (simp add: mk_small mult.commute)
  have w: "width_in (clamp_params s') = Num w"
    by (simp add: p)
  have c: "get_field (clamp_params s') k = (case k of Width_in \<Rightarrow> Num 2 | _ \<Rightarrow> Num 0.1)"
  proof (cases k)
    case Width_in
    then show ?thesis using z by (simp add: clamp_params_fields clamp_def)
  next
    case Thickness_in
    then show ?thesis using z by (simp add: clamp_params_fields clamp_def)
  next
    case CenterHoleDia_in
    have "centerHoleDia_in (clamp_params s')
        = clamp (centerHoleDia_in s') (Num 0.1) (Num (0.9 * w))"
      using clamp_params_fields(3)[of s'] unfolding w m .
    with CenterHoleDia_in z b show ?thesis by (simp add: clamp_def)
  qed
  show ?thesis
    using z c unfolding Let_def s_def[symmetric] s'_def[symmetric]
    by (simp add: compute_def Let_def ensureNumber_def StringToNumber_empty StringToNumber_abc)
qed

theorem empty_string_stores_zero_witness:
  "get_field initial_params Width_in = Num 10
   \<and> get_field (setParam UnitIn Width_in (JStr []) (run_updates initial_params [])) Width_in = Num 0
   \<and> get_field (comp_p (compute (setParam UnitIn Width_in (JStr [])
         (run_updates initial_params [])))) Width_in = Num 2"
proof -
  have i: "get_field initial_params Width_in = Num 10"
    by (simp add: initial_params_def)
  have t: "get_field (setParam UnitIn Width_in (JStr []) (run_updates initial_params [])) Width_in
        = Num 0
      \<and> get_field (comp_p (compute (setParam UnitIn Width_in (JStr [])
         (run_updates initial_params [])))) Width_in = (case Width_in of Width_in \<Rightarrow> Num 2 | _ \<Rightarrow> Num 0.1)"
    using empty_string_stores_zero[of "[]" UnitIn Width_in]
    unfolding Let_def by blast
  from i t show ?thesis by simp
qed

text \<open>
  C10. The exported document lists the three stored fields as they are stored. A
  width set in inches to any finite value is exported as that value, after any
  update sequence; in particular after entering \<open>100\<close> the document holds the
  width \<open>100\<close>, outside \<open>[2, 36]\<close>, while the drawing sees \<open>36\<close>.
\<close>

theorem export_is_unclamped_store:
  "(let s = run_updates initial_params (us @ [(UnitIn, Width_in, JNum (Num v))])
    in downloadJSON s
         = [(''width_in'', JsonNumber v),
            (''thickness_in'', json_of (thickness_in s)),
            (''centerHoleDia_in'', json_of (centerHoleDia_in s))])
   \<and> (let s = run_updates initial_params [(UnitIn, Width_in, JStr ''100'')]
      in downloadJSON s
           = [(''width_in'', JsonNumber 100),
              (''thickness_in'', JsonNumber 2.5),
              (''centerHoleDia_in'', JsonNumber 2.5)]
         \<and> \<not> js_le (width_in s) (Num 36)
         \<and> width_in (comp_p (compute s)) = Num 36)"
proof -
  have a: "width_in (run_updates initial_params (us @ [(UnitIn, Width_in, JNum (Num v))])) = Num v"
    by (simp add: run_updates_append setParam_def ensureNumber_def fromUi_def)
  have n: "StringToNumber ''100'' = Num 100"
    by (simp add: parse_defs)
  have s: "run_updates initial_params [(UnitIn, Width_in, JStr ''100'')]
     = \<lparr>width_in = Num 100, thickness_in = Num 2.5, centerHoleDia_in = Num 2.5\<rparr>"
    by (simp add: setParam_def ensureNumber_def n fromUi_def initial_params_def)
  have c: "width_in (comp_p (compute
      \<lparr>width_in = Num 100, thickness_in = Num 2.5, centerHoleDia_in = Num 2.5\<rparr>)) = Num 36"
    by (simp add: compute_def Let_def clamp_params_def clamp_def)
  show ?thesis
    unfolding Let_def s c by (simp add: downloadJSON_def a)
qed

section \<open>Formatted measurements\<close>

text \<open>
  C4. For a binary64 input of magnitude below \<open>2^53\<close> inches, that is a value
  \<open>v = m / 2^k\<close> with \<open>|m| < 2^53\<close> and \<open>k \<le> 1074\<close>, and a digit count up to
  \<open>100\<close>, \<open>inchesToEngineeringStr\<close> returns the sign (for a negative input), the
  digits of \<open>feet = floor(|v| / 12)\<close>, the two characters \<open>'-\<close>, the remainder
  \<open>|v| - feet * 12\<close> as \<open>toFixed\<close> writes it, and the inch mark. The remainder lies
  in \<open>[0, 12)\<close>, its rendering is a decimal numeral with exactly that many
  fractional digits, nearest to the remainder, and neither it nor the feet carry a
  sign of their own. At precision \<open>2\<close> (passed, or left out) the input \<open>0\<close> gives
  \<open>0'-0.00"\<close> and \<open>-15\<close> gives \<open>-1'-3.00"\<close>.
\<close>

theorem engineering_format:
  fixes m :: int and k p :: nat
  assumes "\<bar>m\<bar> < 2 ^ 53" and "k \<le> 1074" and "p \<le> 100"
  shows "let v = real_of_int m / 2 ^ k;
             feet = nat \<lfloor>\<bar>v\<bar> / 12\<rfloor>;
             rem = \<bar>v\<bar> - real feet * 12;
             n = nat \<lfloor>rem * 10 ^ p + 1 / 2\<rfloor>;
             body = fixed_digits p n
         in inchesToEngineeringStr (Num v) (Some (Num (real p)))
              = Returns ((if v < 0 then ''-'' else []) @ digits_of feet @ [CHR 0x27, CHR ''-'']
                         @ body @ [CHR 0x22])
            \<and> toFixed (Num rem) (Num (real p)) = Returns body
            \<and> 0 \<le> rem \<and> rem < 12
            \<and> decimal_with p body
            \<and> \<bar>real n - rem * 10 ^ p\<bar> \<le> 1 / 2
            \<and> CHR ''-'' \<notin> set (digits_of feet) \<and> CHR ''-'' \<notin> set body
            \<and> inchesToEngineeringStr (Num v) None = inchesToEngineeringStr (Num v) (Some (Num 2))
            \<and> inchesToEngineeringStr (Num 0) (Some (Num 2))
                = Returns (''0'' @ [CHR 0x27] @ ''-0.00'' @ [CHR 0x22])
            \<and> inchesToEngineeringStr (Num (- 15)) (Some (Num 2))
                = Returns (''-1'' @ [CHR 0x27] @ ''-3.00'' @ [CHR 0x22])"
proof -
  define v where "v = real_of_int m / 2 ^ k"
  define f where "f = \<lfloor>\<bar>v\<bar> / 12\<rfloor>"
  define feet where "feet = nat \<lfloor>\<bar>v\<bar> / 12\<rfloor>"
  define rem where "rem = \<bar>v\<bar> - real feet * 12"
  define n where "n = nat \<lfloor>rem * 10 ^ p + 1 / 2\<rfloor>"
  define body where "body = fixed_digits p n"
  have "\<bar>v\<bar> = \<bar>real_of_int m\<bar> / 2 ^ k" by (simp add: v_def)
  also have "\<dots> \<le> \<bar>real_of_int m\<bar> / 1"
    by (intro divide_left_mono) simp_all
  also have "\<bar>real_of_int m\<bar> / 1 = real_of_int \<bar>m\<bar>" by simp
  also have "\<dots> < 2 ^ 53" using assms(1) by (simp only: of_int_less_numeral_power_cancel_iff)
  finally have "\<bar>v\<bar> < 2 ^ 53" .
  then have vb: "\<bar>v\<bar> < 12 * 2 ^ 53" by simp
  note fp = feet_parts[of v, folded f_def]
  have ff: "real feet = of_int f" unfolding feet_def f_def[symmetric] using fp(1) by simp
  have r: "0 \<le> rem" "rem < 12" using fp(2,3) by (simp_all add: rem_def ff)
  have a: "inchesToEngineeringStr (Num v) (Some (Num (real p)))
              = Returns ((if v < 0 then ''-'' else []) @ digits_of feet @ [CHR 0x27, CHR ''-'']
                         @ body @ [CHR 0x22])"
    unfolding body_def n_def rem_def feet_def by (rule engineering_general[OF vb assms(3)])
  have b: "toFixed (Num rem) (Num (real p)) = Returns body"
    unfolding body_def n_def using r assms(3) by (intro toFixed_nonneg) auto
  have c: "decimal_with p body"
    unfolding body_def by (rule fixed_digits_shape)
  have d: "\<bar>real n - rem * 10 ^ p\<bar> \<le> 1 / 2"
    unfolding n_def using r by (intro nearest_integer) simp
  have e: "CHR ''-'' \<notin> set (digits_of feet)"
    using digits_of_digits[of feet] by (auto simp: list_all_iff is_digit_def digit_val_def)
  have g: "CHR ''-'' \<notin> set body"
    using c by (rule decimal_with_no_minus)
  have h: "inchesToEngineeringStr (Num v) None = inchesToEngineeringStr (Num v) (Some (Num 2))"
    by (simp add: inchesToEngineeringStr_def)
  have i: "inchesToEngineeringStr (Num 0) (Some (Num 2))
                = Returns (''0'' @ [CHR 0x27] @ ''-0.00'' @ [CHR 0x22])"
    by (simp add: render_defs)
  have j: "inchesToEngineeringStr (Num (- 15)) (Some (Num 2))
                = Returns (''-1'' @ [CHR 0x27] @ ''-3.00'' @ [CHR 0x22])"
    by (simp add: render_defs)
  show ?thesis
    unfolding Let_def v_def[symmetric] feet_def[symmetric] rem_def[symmetric] n_def[symmetric]
      body_def[symmetric]
    using a b r c d e g h i j by (intro conjI)
qed

theorem engineering_format_witness:
  "\<bar>- 15 :: int\<bar> < 2 ^ 53 \<and> (0 :: nat) \<le> 1074 \<and> (2 :: nat) \<le> 100
   \<and> inchesToEngineeringStr (Num (real_of_int (- 15) / 2 ^ 0)) (Some (Num (real 2)))
       = Returns (''-1'' @ [CHR 0x27] @ ''-3.00'' @ [CHR 0x22])
   \<and> toFixed (Num 3) (Num (real 2)) = Returns ''3.00''"
proof -
  have h: "\<bar>- 15 :: int\<bar> < 2 ^ 53" "(0 :: nat) \<le> 1074" "(2 :: nat) \<le> 100" by simp_all
  have v: "nat \<lfloor>\<bar>real_of_int (- 15) / 2 ^ 0\<bar> / 12\<rfloor> = 1" by simp
  have t: "inchesToEngineeringStr (Num (real_of_int (- 15) / 2 ^ 0)) (Some (Num (real 2)))
       = Returns (''-1'' @ [CHR 0x27] @ ''-3.00'' @ [CHR 0x22])
     \<and> toFixed (Num 3) (Num (real 2)) = Returns ''3.00''"
    using engineering_format[OF h]
    unfolding Let_def v by (simp add: fixed_digits_def digits_of.simps digit_char_def)
  from h t show ?thesis by (intro conjI) simp_all
qed

text \<open>
  C6 fails on the code: nothing is recomputed after rounding. The width \<open>11.999\<close>
  (entered in inches) has zero feet and the remainder \<open>11.999\<close>, which \<open>toFixed(2)\<close>
  writes as \<open>12.00\<close>; the width label of the drawing is \<open>WIDTH = 0'-12.00"\<close>.
\<close>

theorem engineering_format_shows_twelve:
  "inchesToEngineeringStr (Num 11.999) (Some (Num 2))
     = Returns (''0'' @ [CHR 0x27] @ ''-12.00'' @ [CHR 0x22])
   \<and> width_text UnitIn (Num 2)
        (comp_p (compute (run_updates initial_params [(UnitIn, Width_in, JStr ''11.999'')])))
     = Returns (''WIDTH = 0'' @ [CHR 0x27] @ ''-12.00'' @ [CHR 0x22])"
proof -
  have a: "inchesToEngineeringStr (Num 11.999) (Some (Num 2))
     = Returns (''0'' @ [CHR 0x27] @ ''-12.00'' @ [CHR 0x22])"
    by (simp add: render_defs)
  have n: "StringToNumber ''11.999'' = Num 11.999"
    by (simp add: parse_defs)
  have s: "run_updates initial_params [(UnitIn, Width_in, JStr ''11.999'')]
     = \<lparr>width_in = Num 11.999, thickness_in = Num 2.5, centerHoleDia_in = Num 2.5\<rparr>"
    by (simp add: setParam_def ensureNumber_def n fromUi_def initial_params_def)
  have c: "width_in (comp_p (compute
       \<lparr>width_in = Num 11.999, thickness_in = Num 2.5, centerHoleDia_in = Num 2.5\<rparr>))
     = Num 11.999"
    by (simp add: compute_def Let_def clamp_params_def clamp_def)
  show ?thesis
    unfolding s width_text_def c using a by simp
qed




text \<open>
  C5, as stated, fails for the width: the page prefixes the engineering string with
  \<open>WIDTH = \<close>.
\<close>

theorem width_label_counterexample:
  "map dim_text (dimensions UnitIn (Num 2) (Num 2.5) True initial_params) ! 0
     = Returns (''WIDTH = 0'' @ [CHR 0x27] @ ''-10.00'' @ [CHR 0x22])
   \<and> map dim_text (dimensions UnitIn (Num 2) (Num 2.5) True initial_params) ! 0
     \<noteq> Returns (''0'' @ [CHR 0x27] @ ''-10.00'' @ [CHR 0x22])"
proof -
  have "map dim_text (dimensions UnitIn (Num 2) (Num 2.5) True initial_params) ! 0
     = Returns (''WIDTH = 0'' @ [CHR 0x27] @ ''-10.00'' @ [CHR 0x22])"
    by (simp add: dimensions_def compute_def clamp_params_def clamp_def initial_params_def
      width_text_def render_defs)
  then show ?thesis by simp
qed

text \<open>
  C5, as the code has it. With the default parameters, inches, precision \<open>2\<close> and
  zoom \<open>2.5\<close>, the drawing has three annotations: the width with the text
  \<open>WIDTH = 0'-10.00"\<close>, the thickness with \<open>2.50"\<close>, and the hole with the diameter
  sign and \<open>2.50"\<close>.
\<close>

theorem default_labels:
  "map dim_text (dimensions UnitIn (Num 2) (Num 2.5) True initial_params)
     = [Returns (''WIDTH = 0'' @ [CHR 0x27] @ ''-10.00'' @ [CHR 0x22]),
        Returns (''2.50'' @ [CHR 0x22]),
        Returns ([CHR 0xE2, CHR 0x8C, CHR 0x80] @ ''2.50'' @ [CHR 0x22])]"
  by (simp add: dimensions_def compute_def clamp_params_def clamp_def initial_params_def
      width_text_def thickness_text_def hole_text_def diameter_sign_def render_defs)

section \<open>Dimension geometry\<close>

lemma hypot_bounds:
  fixes a b :: real
  shows "\<bar>a\<bar> \<le> sqrt (a * a + b * b)" "\<bar>b\<bar> \<le> sqrt (a * a + b * b)"
    "sqrt (a * a + b * b) \<le> \<bar>a\<bar> + \<bar>b\<bar>" "0 \<le> sqrt (a * a + b * b)"
    "sqrt (a * a + b * b) = 0 \<longleftrightarrow> a = 0 \<and> b = 0"
proof -
  have e: "a * a + b * b = a\<^sup>2 + b\<^sup>2" by (simp add: power2_eq_square)
  have "\<bar>a\<bar> \<le> sqrt (\<bar>a\<bar>\<^sup>2 + b\<^sup>2)" by (rule real_sqrt_sum_squares_ge1)
  then show "\<bar>a\<bar> \<le> sqrt (a * a + b * b)" unfolding e by simp
  have "\<bar>b\<bar> \<le> sqrt (a\<^sup>2 + \<bar>b\<bar>\<^sup>2)" by (rule real_sqrt_sum_squares_ge2)
  then show "\<bar>b\<bar> \<le> sqrt (a * a + b * b)" unfolding e by simp
  show "sqrt (a * a + b * b) \<le> \<bar>a\<bar> + \<bar>b\<bar>" unfolding e by (rule sqrt_sum_squares_le_sum_abs)
  show "0 \<le> sqrt (a * a + b * b)" by simp
  show "sqrt (a * a + b * b) = 0 \<longleftrightarrow> a = 0 \<and> b = 0"
    unfolding e by (simp add: sum_power2_eq_zero_iff)
qed

lemma unit_component:
  fixes a b :: real
  defines "len \<equiv> sqrt (a * a + b * b)"
  shows "\<bar>a / (if len = 0 then 1 else len)\<bar> \<le> 1"
proof (cases "len = 0")
  case True
  then have "a = 0" using hypot_bounds(5)[of a b] by (simp add: len_def)
  with True show ?thesis by simp
next
  case False
  have "0 \<le> len" "\<bar>a\<bar> \<le> len" using hypot_bounds[of a b] by (simp_all add: len_def)
  with False show ?thesis by simp
qed

lemma mk_within:
  fixes B :: real
  assumes "\<bar>r\<bar> \<le> 4 * B + 22" "B = 2 ^ 1000"
  shows "mk r = Num r"
proof -
  have "4 * B + 22 \<le> (2::real) ^ 1023" unfolding assms(2) by simp
  with assms(1) show ?thesis by (intro mk_Num) linarith
qed

lemma scaled_bound:
  fixes n off B :: real
  assumes "\<bar>n\<bar> \<le> 1" "\<bar>off\<bar> \<le> B"
  shows "\<bar>n * off\<bar> \<le> B"
proof -
  have "\<bar>n * off\<bar> = \<bar>n\<bar> * \<bar>off\<bar>" by (rule abs_mult)
  also have "\<dots> \<le> 1 * \<bar>off\<bar>" using assms(1) by (intro mult_right_mono) simp_all
  finally show ?thesis using assms(2) by simp
qed

lemma Dim_finite_inputs:
  fixes x1 y1 x2 y2 off :: real
  assumes b: "\<bar>x1\<bar> \<le> 2 ^ 1000" "\<bar>y1\<bar> \<le> 2 ^ 1000" "\<bar>x2\<bar> \<le> 2 ^ 1000" "\<bar>y2\<bar> \<le> 2 ^ 1000"
    "\<bar>off\<bar> \<le> 2 ^ 1000"
    and o: "(case ofs of None \<Rightarrow> Num 20 | Some v \<Rightarrow> v) = Num off"
  defines "len \<equiv> sqrt ((x2 - x1) * (x2 - x1) + (y2 - y1) * (y2 - y1))"
  defines "l \<equiv> (if len = 0 then 1 else len)"
  defines "nx \<equiv> - ((y2 - y1) / l)"
  defines "ny \<equiv> (x2 - x1) / l"
  defines "ox \<equiv> x1 + nx * off" and "oy \<equiv> y1 + ny * off"
  defines "qx \<equiv> x2 + nx * off" and "qy \<equiv> y2 + ny * off"
  shows "Dim \<lparr>dim_x1 = Num x1, dim_y1 = Num y1, dim_x2 = Num x2, dim_y2 = Num y2,
              dim_offset = ofs, dim_text = txt, dim_rotate = rot\<rparr>
     = \<lparr>ext_line1 = \<lparr>line_x1 = Num x1, line_y1 = Num y1, line_x2 = Num ox, line_y2 = Num oy\<rparr>,
        ext_line2 = \<lparr>line_x1 = Num x2, line_y1 = Num y2, line_x2 = Num qx, line_y2 = Num qy\<rparr>,
        dimension_line = \<lparr>line_x1 = Num ox, line_y1 = Num oy, line_x2 = Num qx, line_y2 = Num qy\<rparr>,
        text_x = Num ((ox + qx) / 2 + (if truthy_opt rot then 14 else 0)),
        text_y = Num ((oy + qy) / 2 - (if truthy_opt rot then 22 else 6)),
        text_rotation =
          (case rot of
             None \<Rightarrow> None
           | Some r \<Rightarrow>
               if truthy r then Some (r, Num ((ox + qx) / 2 + 14), Num ((oy + qy) / 2))
               else None),
        text_content = txt\<rparr>"
proof -
  define B :: real where "B = 2 ^ 1000"
  note bb = b[folded B_def]
  have Bpos: "0 < B" by (simp add: B_def)
  note mkB = mk_within[OF _ B_def]
  define dx where "dx = x2 - x1"
  define dy where "dy = y2 - y1"
  have dxb: "\<bar>dx\<bar> \<le> 2 * B" "\<bar>dy\<bar> \<le> 2 * B" using bb by (simp_all add: dx_def dy_def)
  have md: "mk dx = Num dx" "mk dy = Num dy"
    by (rule mkB, use dxb Bpos in linarith)+
  have dxj: "js_sub (Num x2) (Num x1) = Num dx" "js_sub (Num y2) (Num y1) = Num dy"
    using md by (simp_all add: js_sub_def dx_def dy_def)
  have lend: "sqrt (dx * dx + dy * dy) = len" "sqrt (dy * dy + dx * dx) = len"
    by (simp_all add: len_def dx_def dy_def add.commute)
  have lenb: "0 \<le> len" "len \<le> 4 * B"
    using hypot_bounds(3,4)[of dx dy] dxb unfolding lend by linarith+
  have "mk len = Num len"
    by (rule mkB, use lenb Bpos in linarith)
  then have hyp: "Math_hypot (Num dx) (Num dy) = Num len"
    by (simp add: lend)
  have sel: "(if truthy (Num len) then Num len else Num 1) = Num l"
    by (simp add: l_def)
  have l0: "l \<noteq> 0" by (simp add: l_def)
  have ub: "\<bar>dx / l\<bar> \<le> 1" "\<bar>dy / l\<bar> \<le> 1"
    using unit_component[of dx dy] unit_component[of dy dx]
    unfolding lend l_def[symmetric] by blast+
  have mu: "mk (dx / l) = Num (dx / l)" "mk (dy / l) = Num (dy / l)"
    by (rule mkB, use ub Bpos in linarith)+
  have nyd: "ny = dx / l" by (simp add: ny_def dx_def)
  have uxj: "js_div (Num dx) (Num l) = Num ny" "js_div (Num dy) (Num l) = Num (dy / l)"
    using l0 mu by (simp_all add: nyd)
  have nxj: "js_neg (Num (dy / l)) = Num nx"
    by (simp add: nx_def dy_def)
  have nb: "\<bar>nx\<bar> \<le> 1" "\<bar>ny\<bar> \<le> 1"
    using ub unfolding nyd nx_def dy_def[symmetric] by simp_all
  have sb: "\<bar>nx * off\<bar> \<le> B" "\<bar>ny * off\<bar> \<le> B"
    using nb bb(5) by (simp_all add: scaled_bound)
  have mm: "mk (nx * off) = Num (nx * off)" "mk (ny * off) = Num (ny * off)"
    by (rule mkB, use sb Bpos in linarith)+
  have mj: "js_mul (Num nx) (Num off) = Num (nx * off)" "js_mul (Num ny) (Num off) = Num (ny * off)"
    by (simp_all add: mm)
  have ob: "\<bar>ox\<bar> \<le> 2 * B" "\<bar>oy\<bar> \<le> 2 * B" "\<bar>qx\<bar> \<le> 2 * B" "\<bar>qy\<bar> \<le> 2 * B"
    using sb bb unfolding ox_def oy_def qx_def qy_def by linarith+
  have mo: "mk ox = Num ox" "mk oy = Num oy" "mk qx = Num qx" "mk qy = Num qy"
    by (rule mkB, use ob Bpos in linarith)+
  have oj: "js_add (Num x1) (Num (nx * off)) = Num ox" "js_add (Num y1) (Num (ny * off)) = Num oy"
    "js_add (Num x2) (Num (nx * off)) = Num qx" "js_add (Num y2) (Num (ny * off)) = Num qy"
    using mo unfolding ox_def oy_def qx_def qy_def by simp_all
  have sumb: "\<bar>ox + qx\<bar> \<le> 4 * B" "\<bar>oy + qy\<bar> \<le> 4 * B" using ob by linarith+
  have halfb: "\<bar>(ox + qx) / 2\<bar> \<le> 2 * B" "\<bar>(oy + qy) / 2\<bar> \<le> 2 * B"
    using sumb by simp_all
  have ms: "mk (ox + qx) = Num (ox + qx)" "mk (oy + qy) = Num (oy + qy)"
    "mk ((ox + qx) / 2) = Num ((ox + qx) / 2)" "mk ((oy + qy) / 2) = Num ((oy + qy) / 2)"
    by (rule mkB, use sumb halfb Bpos in linarith)+
  have sj: "js_add (Num ox) (Num qx) = Num (ox + qx)" "js_add (Num oy) (Num qy) = Num (oy + qy)"
    by (simp_all add: ms)
  have hj: "js_div (Num (ox + qx)) (Num 2) = Num ((ox + qx) / 2)"
    "js_div (Num (oy + qy)) (Num 2) = Num ((oy + qy) / 2)"
    using ms(3,4) by simp_all
  have mt: "mk ((ox + qx) / 2 + 14) = Num ((ox + qx) / 2 + 14)"
    "mk ((oy + qy) / 2 - 22) = Num ((oy + qy) / 2 - 22)"
    "mk ((oy + qy) / 2 - 6) = Num ((oy + qy) / 2 - 6)"
    by (rule mkB, use halfb Bpos in linarith)+
  show ?thesis
    unfolding Dim_def Let_def
    by (simp only: dim_props.simps o dxj hyp sel uxj nxj mj oj sj hj)
       (simp add: mt ms js_sub_def truthy_opt_def split: option.split)
qed

text \<open>
  C8, as stated, fails where the difference of the anchors overflows: for the anchors
  \<open>(-1e308, 0)\<close> and \<open>(1e308, 0)\<close> the difference is \<open>Infinity\<close>, the length is
  \<open>Infinity\<close>, their quotient is NaN, and NaN reaches the end of the first extension
  line.
\<close>

theorem dimension_overflow_counterexample:
  "isFinite (Num (10 ^ 308)) \<and> isFinite (Num (- (10 ^ 308))) \<and> isFinite (Num 20)
   \<and> line_y2 (ext_line1 (Dim \<lparr>dim_x1 = Num (- (10 ^ 308)), dim_y1 = Num 0,
                               dim_x2 = Num (10 ^ 308), dim_y2 = Num 0,
                               dim_offset = Some (Num 20), dim_text = Returns [],
                               dim_rotate = None\<rparr>)) = NaN
   \<and> \<not> isFinite NaN"
  by (simp add: Dim_def Let_def js_sub_def mk_def overflow_at_def)

text \<open>
  C8, as the code has it. For anchors and an offset that are finite and of magnitude
  at most \<open>2^1000\<close> (an offset left out is \<open>20\<close>), every coordinate that \<open>Dim\<close>
  draws is finite. With \<open>len\<close> the distance of the anchors, replaced by \<open>1\<close> when it
  is \<open>0\<close>, \<open>u = (p2 - p1) / len\<close> and \<open>n = (-u.y, u.x)\<close>, the extension lines run
  from \<open>p1\<close> to \<open>o1 = p1 + n * offset\<close> and from \<open>p2\<close> to \<open>o2 = p2 + n * offset\<close>,
  the dimension line from \<open>o1\<close> to \<open>o2\<close>, and the text sits at their midpoint, moved
  by \<open>(0, -6)\<close>, or by \<open>(14, -22)\<close> and rotated about the midpoint moved by
  \<open>(14, 0)\<close> when a rotation is given. When the anchors coincide, \<open>o1 = p1\<close> and
  \<open>o2 = p2\<close>; otherwise \<open>u\<close> has length \<open>1\<close>.
\<close>

theorem dimension_geometry:
  fixes x1 y1 x2 y2 :: real and ofs :: "real option"
  assumes "\<bar>x1\<bar> \<le> 2 ^ 1000" "\<bar>y1\<bar> \<le> 2 ^ 1000" "\<bar>x2\<bar> \<le> 2 ^ 1000" "\<bar>y2\<bar> \<le> 2 ^ 1000"
    and "\<bar>case ofs of None \<Rightarrow> 20 | Some v \<Rightarrow> v\<bar> \<le> 2 ^ 1000"
  shows "let off = (case ofs of None \<Rightarrow> 20 | Some v \<Rightarrow> v);
             len = sqrt ((x2 - x1) * (x2 - x1) + (y2 - y1) * (y2 - y1));
             l = (if len = 0 then 1 else len);
             ux = (x2 - x1) / l;
             uy = (y2 - y1) / l;
             nx = - uy;
             ny = ux;
             ox = x1 + nx * off;
             oy = y1 + ny * off;
             qx = x2 + nx * off;
             qy = y2 + ny * off;
             d = Dim \<lparr>dim_x1 = Num x1, dim_y1 = Num y1, dim_x2 = Num x2, dim_y2 = Num y2,
                      dim_offset = map_option Num ofs, dim_text = txt, dim_rotate = rot\<rparr>
         in ext_line1 d = \<lparr>line_x1 = Num x1, line_y1 = Num y1, line_x2 = Num ox, line_y2 = Num oy\<rparr>
            \<and> ext_line2 d = \<lparr>line_x1 = Num x2, line_y1 = Num y2, line_x2 = Num qx, line_y2 = Num qy\<rparr>
            \<and> dimension_line d
                = \<lparr>line_x1 = Num ox, line_y1 = Num oy, line_x2 = Num qx, line_y2 = Num qy\<rparr>
            \<and> text_x d = Num ((ox + qx) / 2 + (if truthy_opt rot then 14 else 0))
            \<and> text_y d = Num ((oy + qy) / 2 - (if truthy_opt rot then 22 else 6))
            \<and> text_rotation d
                = (case rot of
                     None \<Rightarrow> None
                   | Some r \<Rightarrow>
                       if truthy r then Some (r, Num ((ox + qx) / 2 + 14), Num ((oy + qy) / 2))
                       else None)
            \<and> text_content d = txt
            \<and> (x1 = x2 \<and> y1 = y2 \<longrightarrow> l = 1 \<and> ox = x1 \<and> oy = y1 \<and> qx = x2 \<and> qy = y2)
            \<and> (\<not> (x1 = x2 \<and> y1 = y2) \<longrightarrow> l = len \<and> ux * ux + uy * uy = 1)"
proof -
  define off where "off = (case ofs of None \<Rightarrow> 20 | Some v \<Rightarrow> v)"
  define len where "len = sqrt ((x2 - x1) * (x2 - x1) + (y2 - y1) * (y2 - y1))"
  define l where "l = (if len = 0 then 1 else len)"
  define ux where "ux = (x2 - x1) / l"
  define uy where "uy = (y2 - y1) / l"
  have ofs_eq: "(case map_option Num ofs of None \<Rightarrow> Num 20 | Some v \<Rightarrow> v) = Num off"
    by (simp add: off_def split: option.split)
  have ob: "\<bar>off\<bar> \<le> 2 ^ 1000" using assms(5) by (simp add: off_def)
  have D: "Dim \<lparr>dim_x1 = Num x1, dim_y1 = Num y1, dim_x2 = Num x2, dim_y2 = Num y2,
              dim_offset = map_option Num ofs, dim_text = txt, dim_rotate = rot\<rparr>
     = \<lparr>ext_line1 = \<lparr>line_x1 = Num x1, line_y1 = Num y1,
                      line_x2 = Num (x1 + - uy * off), line_y2 = Num (y1 + ux * off)\<rparr>,
        ext_line2 = \<lparr>line_x1 = Num x2, line_y1 = Num y2,
                      line_x2 = Num (x2 + - uy * off), line_y2 = Num (y2 + ux * off)\<rparr>,
        dimension_line = \<lparr>line_x1 = Num (x1 + - uy * off), line_y1 = Num (y1 + ux * off),
                           line_x2 = Num (x2 + - uy * off), line_y2 = Num (y2 + ux * off)\<rparr>,
        text_x = Num ((x1 + - uy * off + (x2 + - uy * off)) / 2
                      + (if truthy_opt rot then 14 else 0)),
        text_y = Num ((y1 + ux * off + (y2 + ux * off)) / 2
                      - (if truthy_opt rot then 22 else 6)),
        text_rotation =
          (case rot of
             None \<Rightarrow> None
           | Some r \<Rightarrow>
               if truthy r
               then Some (r, Num ((x1 + - uy * off + (x2 + - uy * off)) / 2 + 14),
                          Num ((y1 + ux * off + (y2 + ux * off)) / 2))
               else None),
        text_content = txt\<rparr>"
    unfolding ux_def uy_def l_def len_def
    by (rule Dim_finite_inputs[OF assms(1-4) ob ofs_eq])
  have z: "len = 0 \<longleftrightarrow> x1 = x2 \<and> y1 = y2"
    unfolding len_def using hypot_bounds(5)[of "x2 - x1" "y2 - y1"] by auto
  have deg: "x1 = x2 \<and> y1 = y2 \<longrightarrow> l = 1 \<and> x1 + - uy * off = x1 \<and> y1 + ux * off = y1
      \<and> x2 + - uy * off = x2 \<and> y2 + ux * off = y2"
    using z by (simp add: l_def ux_def uy_def)
  have unit: "\<not> (x1 = x2 \<and> y1 = y2) \<longrightarrow> l = len \<and> ux * ux + uy * uy = 1"
  proof
    assume n: "\<not> (x1 = x2 \<and> y1 = y2)"
    with z have l0: "len \<noteq> 0" by blast
    then have l: "l = len" by (simp add: l_def)
    have sq: "(x2 - x1) * (x2 - x1) + (y2 - y1) * (y2 - y1) = len * len"
      unfolding len_def by simp
    have "ux * ux + uy * uy
        = ((x2 - x1) * (x2 - x1) + (y2 - y1) * (y2 - y1)) / (len * len)"
      unfolding ux_def uy_def l by (simp add: add_divide_distrib)
    also have "\<dots> = (len * len) / (len * len)"
      by (simp only: sq)
    also have "\<dots> = 1"
      using l0 by simp
    finally show "l = len \<and> ux * ux + uy * uy = 1" using l by simp
  qed
  show ?thesis
    unfolding Let_def off_def[symmetric] len_def[symmetric] l_def[symmetric]
      ux_def[symmetric] uy_def[symmetric] D
    using deg unit by simp
qed

text \<open>
  The width annotation of the default drawing (anchors \<open>(-100, 25)\<close> and
  \<open>(100, 25)\<close>, offset \<open>40\<close>), and a degenerate annotation with both anchors at
  \<open>(5, 5)\<close>, the default offset and a rotation.
\<close>

theorem dimension_geometry_witness:
  "\<bar>- 100 :: real\<bar> \<le> 2 ^ 1000 \<and> \<bar>25 :: real\<bar> \<le> 2 ^ 1000 \<and> \<bar>100 :: real\<bar> \<le> 2 ^ 1000
   \<and> \<bar>case Some (40 :: real) of None \<Rightarrow> 20 | Some v \<Rightarrow> v\<bar> \<le> 2 ^ 1000
   \<and> ext_line1 (Dim \<lparr>dim_x1 = Num (- 100), dim_y1 = Num 25, dim_x2 = Num 100, dim_y2 = Num 25,
                       dim_offset = map_option Num (Some 40), dim_text = Returns ''w'',
                       dim_rotate = None\<rparr>)
       = \<lparr>line_x1 = Num (- 100), line_y1 = Num 25, line_x2 = Num (- 100), line_y2 = Num 65\<rparr>
   \<and> dimension_line (Dim \<lparr>dim_x1 = Num (- 100), dim_y1 = Num 25, dim_x2 = Num 100,
                       dim_y2 = Num 25, dim_offset = map_option Num (Some 40),
                       dim_text = Returns ''w'', dim_rotate = None\<rparr>)
       = \<lparr>line_x1 = Num (- 100), line_y1 = Num 65, line_x2 = Num 100, line_y2 = Num 65\<rparr>
   \<and> text_y (Dim \<lparr>dim_x1 = Num (- 100), dim_y1 = Num 25, dim_x2 = Num 100,
                       dim_y2 = Num 25, dim_offset = map_option Num (Some 40),
                       dim_text = Returns ''w'', dim_rotate = None\<rparr>) = Num 59
   \<and> \<bar>5 :: real\<bar> \<le> 2 ^ 1000 \<and> \<bar>case None of None \<Rightarrow> 20 :: real | Some v \<Rightarrow> v\<bar> \<le> 2 ^ 1000
   \<and> dimension_line (Dim \<lparr>dim_x1 = Num 5, dim_y1 = Num 5, dim_x2 = Num 5, dim_y2 = Num 5,
                       dim_offset = map_option Num None, dim_text = Returns ''w'',
                       dim_rotate = Some (Num (- 90))\<rparr>)
       = \<lparr>line_x1 = Num 5, line_y1 = Num 5, line_x2 = Num 5, line_y2 = Num 5\<rparr>
   \<and> text_rotation (Dim \<lparr>dim_x1 = Num 5, dim_y1 = Num 5, dim_x2 = Num 5, dim_y2 = Num 5,
                       dim_offset = map_option Num None, dim_text = Returns ''w'',
                       dim_rotate = Some (Num (- 90))\<rparr>)
       = Some (Num (- 90), Num 19, Num 5)"
proof -
  have h: "\<bar>- 100 :: real\<bar> \<le> 2 ^ 1000" "\<bar>25 :: real\<bar> \<le> 2 ^ 1000" "\<bar>100 :: real\<bar> \<le> 2 ^ 1000"
    "\<bar>case Some (40 :: real) of None \<Rightarrow> 20 | Some v \<Rightarrow> v\<bar> \<le> 2 ^ 1000"
    by simp_all
  have g: "\<bar>5 :: real\<bar> \<le> 2 ^ 1000" "\<bar>case None of None \<Rightarrow> 20 :: real | Some v \<Rightarrow> v\<bar> \<le> 2 ^ 1000"
    by simp_all
  have sq: "sqrt (40000 :: real) = 200"
    by (rule real_sqrt_unique) simp_all
  have a: "ext_line1 (Dim \<lparr>dim_x1 = Num (- 100), dim_y1 = Num 25, dim_x2 = Num 100, dim_y2 = Num 25,
                       dim_offset = map_option Num (Some 40), dim_text = Returns ''w'',
                       dim_rotate = None\<rparr>)
       = \<lparr>line_x1 = Num (- 100), line_y1 = Num 25, line_x2 = Num (- 100), line_y2 = Num 65\<rparr>
   \<and> dimension_line (Dim \<lparr>dim_x1 = Num (- 100), dim_y1 = Num 25, dim_x2 = Num 100,
                       dim_y2 = Num 25, dim_offset = map_option Num (Some 40),
                       dim_text = Returns ''w'', dim_rotate = None\<rparr>)
       = \<lparr>line_x1 = Num (- 100), line_y1 = Num 65, line_x2 = Num 100, line_y2 = Num 65\<rparr>
   \<and> text_y (Dim \<lparr>dim_x1 = Num (- 100), dim_y1 = Num 25, dim_x2 = Num 100,
                       dim_y2 = Num 25, dim_offset = map_option Num (Some 40),
                       dim_text = Returns ''w'', dim_rotate = None\<rparr>) = Num 59"
    using dimension_geometry[OF h(1) h(2) h(3) h(2) h(4), of "Returns ''w''" None]
    by (simp add: Let_def sq truthy_opt_def)
  have b: "dimension_line (Dim \<lparr>dim_x1 = Num 5, dim_y1 = Num 5, dim_x2 = Num 5, dim_y2 = Num 5,
                       dim_offset = map_option Num None, dim_text = Returns ''w'',
                       dim_rotate = Some (Num (- 90))\<rparr>)
       = \<lparr>line_x1 = Num 5, line_y1 = Num 5, line_x2 = Num 5, line_y2 = Num 5\<rparr>
   \<and> text_rotation (Dim \<lparr>dim_x1 = Num 5, dim_y1 = Num 5, dim_x2 = Num 5, dim_y2 = Num 5,
                       dim_offset = map_option Num None, dim_text = Returns ''w'',
                       dim_rotate = Some (Num (- 90))\<rparr>)
       = Some (Num (- 90), Num 19, Num 5)"
    using dimension_geometry[OF g(1) g(1) g(1) g(1) g(2), of "Returns ''w''" "Some (Num (- 90))"]
    by (simp add: Let_def)
  from h g a b show ?thesis by (intro conjI) simp_all
qed

subsection \<open>The annotations of the page\<close>

lemma Dim_drawing_finite:
  fixes x1 y1 x2 y2 off :: real
  assumes "\<bar>x1\<bar> \<le> 2 ^ 1000" "\<bar>y1\<bar> \<le> 2 ^ 1000" "\<bar>x2\<bar> \<le> 2 ^ 1000" "\<bar>y2\<bar> \<le> 2 ^ 1000"
    "\<bar>off\<bar> \<le> 2 ^ 1000"
  shows "drawing_finite (Dim \<lparr>dim_x1 = Num x1, dim_y1 = Num y1, dim_x2 = Num x2, dim_y2 = Num y2,
              dim_offset = Some (Num off), dim_text = txt, dim_rotate = rot\<rparr>)"
  unfolding Dim_finite_inputs[OF assms, of "Some (Num off)", simplified]
  by (simp add: drawing_finite_def line_finite_def split: option.split)

lemma px_value:
  assumes "\<bar>x\<bar> \<le> 18" "0 \<le> z" "z \<le> 5"
  shows "px (Num z) (Num x) = Num (x * 8 * z)" "\<bar>x * 8 * z\<bar> \<le> 720"
proof -
  have a: "\<bar>x * 8\<bar> \<le> 144" using assms(1) by simp
  have "\<bar>x * 8 * z\<bar> = \<bar>x * 8\<bar> * \<bar>z\<bar>" by (rule abs_mult)
  also have "\<dots> \<le> 144 * 5"
    using a assms(2,3) by (intro mult_mono) simp_all
  finally show b: "\<bar>x * 8 * z\<bar> \<le> 720" by simp
  have "mk (x * 8) = Num (x * 8)" using a by (intro mk_small) simp
  moreover have "mk (x * 8 * z) = Num (x * 8 * z)" using b by (intro mk_small) simp
  ultimately show "px (Num z) (Num x) = Num (x * 8 * z)" by (simp add: px_def)
qed

text \<open>
  The annotations the page draws stay far below the overflow range: for every store
  the page can be in and every zoom in \<open>[0, 5]\<close> (the slider gives \<open>[2.5, 5]\<close>),
  all coordinates of all annotations are finite.
\<close>

lemma drawing_annotations_finite:
  assumes "0 \<le> z" "z \<le> 5"
  shows "list_all (\<lambda>q. drawing_finite (Dim q))
           (dimensions unit precision (Num z) showDims (run_updates initial_params us))"
proof -
  obtain w t h where p: "clamp_params (run_updates initial_params us)
        = \<lparr>width_in = Num w, thickness_in = Num t, centerHoleDia_in = Num h\<rparr>"
    and b: "2 \<le> w" "w \<le> 36" "0.1 \<le> t" "t \<le> 10" "0.1 \<le> h" "h \<le> 0.9 * w"
    using clamp_params_range[OF reachable_no_NaN[of us]] by blast
  have hw: "js_div (Num w) (Num 2) = Num (w / 2)" "js_div (Num t) (Num 2) = Num (t / 2)"
    "js_div (Num h) (Num 2) = Num (h / 2)" "js_div (Num (- h)) (Num 2) = Num (- h / 2)"
    using b by (simp_all add: mk_small)
  have r: "\<bar>w / 2\<bar> \<le> 18" "\<bar>t / 2\<bar> \<le> 18" "\<bar>h / 2\<bar> \<le> 18"
    "\<bar>- (w / 2)\<bar> \<le> 18" "\<bar>- (t / 2)\<bar> \<le> 18" "\<bar>- h / 2\<bar> \<le> 18"
    using b by simp_all
  note v = r[THEN px_value(1)[OF _ assms]]
  note c = r[THEN px_value(2)[OF _ assms]]
  have big: "\<And>c :: real. \<bar>c\<bar> \<le> 720 \<Longrightarrow> \<bar>c\<bar> \<le> 2 ^ 1000"
    by (rule order_trans[of _ 720]) simp_all
  have o: "\<bar>40 :: real\<bar> \<le> 2 ^ 1000" "\<bar>60 :: real\<bar> \<le> 2 ^ 1000" "\<bar>- 20 :: real\<bar> \<le> 2 ^ 1000"
    by simp_all
  show ?thesis
  proof (cases showDims)
    case False
    then show ?thesis by (simp add: dimensions_def Let_def)
  next
    case True
    show ?thesis
      unfolding dimensions_def compute_def Let_def p
      apply (simp only: True if_True computed.simps params.simps hw js_neg.simps v
          list.pred_inject simp_thms)
      apply (intro conjI Dim_drawing_finite c[THEN big] o)
      done
  qed
qed

end
